theory Spec2Isabelle
  imports Main
begin

section \<open>Python strings\<close>

text \<open>
  A Python \<open>str\<close> is a sequence of Unicode code points; a code point is a natural number.
  ASCII text is written with \<open>ascii\<close>, other code points are given by number
  (U+2019, the apostrophe of the apology messages, is 8217; U+00B0, the degree sign, is 176).
\<close>

type_synonym pystr = "nat list"

definition ascii :: "string \<Rightarrow> pystr" where
  "ascii s = map of_char s"

text \<open>
  The case mappings and the whitespace property of code points from 128 on come from the
  Unicode character database of the Python runtime, which is not part of the repository.
  They are a parameter of the model; what the runtime does on ASCII is written out.
  The mappings are per code point (the context rule of \<open>str.lower\<close> for the Greek capital
  sigma is not modelled).
\<close>

record ucd =
  lower_ext :: "nat \<Rightarrow> pystr"
  upper_ext :: "nat \<Rightarrow> pystr"
  title_ext :: "nat \<Rightarrow> pystr"
  cased_ext :: "nat \<Rightarrow> bool"
  space_ext :: "nat \<Rightarrow> bool"

definition is_ascii_upper :: "nat \<Rightarrow> bool" where
  "is_ascii_upper c = (65 \<le> c \<and> c \<le> 90)"

definition is_ascii_lower :: "nat \<Rightarrow> bool" where
  "is_ascii_lower c = (97 \<le> c \<and> c \<le> 122)"

definition is_ascii_letter :: "nat \<Rightarrow> bool" where
  "is_ascii_letter c = (is_ascii_upper c \<or> is_ascii_lower c)"

text \<open>\<open>str.isspace\<close> on one code point; the regex class \<open>\s\<close> of a \<open>str\<close> pattern and
  \<open>str.strip()\<close> use the same test. In ASCII: TAB to CR, FS to US, and the space.\<close>

definition py_isspace :: "ucd \<Rightarrow> nat \<Rightarrow> bool" where
  "py_isspace U c =
     (if c < 128 then (9 \<le> c \<and> c \<le> 13) \<or> (28 \<le> c \<and> c \<le> 32) else space_ext U c)"

definition lower_cp :: "ucd \<Rightarrow> nat \<Rightarrow> pystr" where
  "lower_cp U c =
     (if is_ascii_upper c then [c + 32] else if c < 128 then [c] else lower_ext U c)"

definition upper_cp :: "ucd \<Rightarrow> nat \<Rightarrow> pystr" where
  "upper_cp U c =
     (if is_ascii_lower c then [c - 32] else if c < 128 then [c] else upper_ext U c)"

definition title_cp :: "ucd \<Rightarrow> nat \<Rightarrow> pystr" where
  "title_cp U c =
     (if is_ascii_lower c then [c - 32] else if c < 128 then [c] else title_ext U c)"

definition is_cased :: "ucd \<Rightarrow> nat \<Rightarrow> bool" where
  "is_cased U c = (if c < 128 then is_ascii_letter c else cased_ext U c)"

definition py_lower :: "ucd \<Rightarrow> pystr \<Rightarrow> pystr" where
  "py_lower U s = concat (map (lower_cp U) s)"

definition py_upper :: "ucd \<Rightarrow> pystr \<Rightarrow> pystr" where
  "py_upper U s = concat (map (upper_cp U) s)"

definition py_strip :: "ucd \<Rightarrow> pystr \<Rightarrow> pystr" where
  "py_strip U s = rev (dropWhile (py_isspace U) (rev (dropWhile (py_isspace U) s)))"

text \<open>\<open>str.title()\<close>: a code point that follows a cased one is lowercased, any other is
  titlecased.\<close>

fun title_from :: "ucd \<Rightarrow> bool \<Rightarrow> pystr \<Rightarrow> pystr" where
  "title_from U prev [] = []"
| "title_from U prev (c # cs) =
     (if prev then lower_cp U c else title_cp U c) @ title_from U (is_cased U c) cs"

definition py_title :: "ucd \<Rightarrow> pystr \<Rightarrow> pystr" where
  "py_title U s = title_from U False s"

text \<open>\<open>str.capitalize()\<close>: the first code point titlecased, the rest lowercased.\<close>

definition py_capitalize :: "ucd \<Rightarrow> pystr \<Rightarrow> pystr" where
  "py_capitalize U s = (case s of [] \<Rightarrow> [] | c # cs \<Rightarrow> title_cp U c @ py_lower U cs)"

text \<open>\<open>sub in s\<close> on strings.\<close>

fun py_startswith :: "pystr \<Rightarrow> pystr \<Rightarrow> bool" where
  "py_startswith [] s = True"
| "py_startswith (p # ps) [] = False"
| "py_startswith (p # ps) (x # xs) = (p = x \<and> py_startswith ps xs)"

fun py_in :: "pystr \<Rightarrow> pystr \<Rightarrow> bool" where
  "py_in sub [] = (sub = [])"
| "py_in sub (x # xs) = (py_startswith sub (x # xs) \<or> py_in sub xs)"

text \<open>\<open>sep.join(parts)\<close>.\<close>

fun py_join :: "pystr \<Rightarrow> pystr list \<Rightarrow> pystr" where
  "py_join sep [] = []"
| "py_join sep [p] = p"
| "py_join sep (p # q # ps) = p @ sep @ py_join sep (q # ps)"

section \<open>Exceptions\<close>

text \<open>
  An exception is its class and the text \<open>str(e)\<close> gives. Every exception of the model is
  an instance of \<open>Exception\<close>, which is what the two \<open>except Exception\<close> clauses of the
  program catch. A function that can raise returns \<open>exn + 'a\<close>, \<open>Inl\<close> for the raise.
\<close>

datatype exn_class = ValueError | KeyError | TypeError | IndexError | AttributeError | OtherError

datatype exn = Exn exn_class pystr

fun exn_str :: "exn \<Rightarrow> pystr" where
  "exn_str (Exn c m) = m"

text \<open>A text between single quotes (code point 39), as \<open>repr\<close> of a plain key and the
  runtime's messages write names.\<close>

definition quoted :: "pystr \<Rightarrow> pystr" where
  "quoted s = [39] @ s @ [39]"

section \<open>The regular expressions of weather.py\<close>

text \<open>
  The fragment of Python's \<open>re\<close> the two patterns use, with the engine's backtracking
  order: a greedy repetition tries the longest run first, a lazy one the shortest, an
  alternation its branches from the left, an optional group its body before the empty
  match. All repetitions of the patterns are over one character class, so repetition takes
  a class. \<open>Grp\<close> is capture group 1 and \<open>Eos\<close> is \<open>$\<close> (without MULTILINE: at the end of
  the text, or before a newline that ends it).
\<close>

datatype rx =
    Chr nat
  | Cls "nat \<Rightarrow> bool"
  | Cat rx rx
  | Alt rx rx
  | Opt rx
  | Star "nat \<Rightarrow> bool"
  | Plus "nat \<Rightarrow> bool"
  | PlusLazy "nat \<Rightarrow> bool"
  | Grp rx
  | Eos
  | Eps

text \<open>The matcher works on the rest of the text and hands each way to continue to a
  continuation \<open>k\<close>; \<open>None\<close> from \<open>k\<close> makes it backtrack.\<close>

fun star_greedy :: "(nat \<Rightarrow> bool) \<Rightarrow> pystr \<Rightarrow> (pystr \<Rightarrow> 'a option) \<Rightarrow> 'a option" where
  "star_greedy p [] k = k []"
| "star_greedy p (x # xs) k =
     (if p x then (case star_greedy p xs k of Some r \<Rightarrow> Some r | None \<Rightarrow> k (x # xs))
      else k (x # xs))"

fun star_lazy :: "(nat \<Rightarrow> bool) \<Rightarrow> pystr \<Rightarrow> (pystr \<Rightarrow> 'a option) \<Rightarrow> 'a option" where
  "star_lazy p [] k = k []"
| "star_lazy p (x # xs) k =
     (case k (x # xs) of Some r \<Rightarrow> Some r
      | None \<Rightarrow> if p x then star_lazy p xs k else None)"

fun bt :: "rx \<Rightarrow> pystr \<Rightarrow> pystr option \<Rightarrow> (pystr \<Rightarrow> pystr option \<Rightarrow> 'a option) \<Rightarrow> 'a option" where
  "bt (Chr c) s g k = (case s of [] \<Rightarrow> None | x # xs \<Rightarrow> if x = c then k xs g else None)"
| "bt (Cls p) s g k = (case s of [] \<Rightarrow> None | x # xs \<Rightarrow> if p x then k xs g else None)"
| "bt (Cat a b) s g k = bt a s g (\<lambda>s' g'. bt b s' g' k)"
| "bt (Alt a b) s g k = (case bt a s g k of Some r \<Rightarrow> Some r | None \<Rightarrow> bt b s g k)"
| "bt (Opt a) s g k = (case bt a s g k of Some r \<Rightarrow> Some r | None \<Rightarrow> k s g)"
| "bt (Star p) s g k = star_greedy p s (\<lambda>s'. k s' g)"
| "bt (Plus p) s g k =
     (case s of [] \<Rightarrow> None | x # xs \<Rightarrow> if p x then star_greedy p xs (\<lambda>s'. k s' g) else None)"
| "bt (PlusLazy p) s g k =
     (case s of [] \<Rightarrow> None | x # xs \<Rightarrow> if p x then star_lazy p xs (\<lambda>s'. k s' g) else None)"
| "bt (Grp a) s g k = bt a s g (\<lambda>s' g'. k s' (Some (take (length s - length s') s)))"
| "bt Eos s g k = (if s = [] \<or> s = [10] then k s g else None)"
| "bt Eps s g k = k s g"

fun lit :: "pystr \<Rightarrow> rx" where
  "lit [] = Eps"
| "lit (c # cs) = Cat (Chr c) (lit cs)"

fun alts :: "rx list \<Rightarrow> rx" where
  "alts [] = Eps"
| "alts [r] = r"
| "alts (r # rs) = Alt r (alts rs)"

text \<open>\<open>re.search\<close>: the leftmost start at which the pattern matches. The result is the
  match's \<open>group(1)\<close>, which Python gives as \<open>None\<close> for a group that took no part.\<close>

fun re_search :: "rx \<Rightarrow> pystr \<Rightarrow> pystr option option" where
  "re_search r [] = bt r [] None (\<lambda>s g. Some g)"
| "re_search r (x # xs) =
     (case bt r (x # xs) None (\<lambda>s g. Some g) of
        Some g \<Rightarrow> Some g
      | None \<Rightarrow> re_search r xs)"

text \<open>The class \<open>[a-zA-Z\s]\<close> and the class \<open>[\s\?\,\.]\<close>.\<close>

definition city_chars :: "ucd \<Rightarrow> nat \<Rightarrow> bool" where
  "city_chars U c = (is_ascii_letter c \<or> py_isspace U c)"

definition trailing_chars :: "ucd \<Rightarrow> nat \<Rightarrow> bool" where
  "trailing_chars U c = (py_isspace U c \<or> c = 63 \<or> c = 44 \<or> c = 46)"

text \<open>\<^verbatim>\<open>in ([a-zA-Z\s]+?)(?:\s+(?:today|now|tomorrow|weather|forecast))?[\s\?\,\.]*$\<close>\<close>

definition pattern1 :: "ucd \<Rightarrow> rx" where
  "pattern1 U =
     Cat (lit (ascii ''in ''))
    (Cat (Grp (PlusLazy (city_chars U)))
    (Cat (Opt (Cat (Plus (py_isspace U))
                   (alts (map (\<lambda>w. lit (ascii w))
                      [''today'', ''now'', ''tomorrow'', ''weather'', ''forecast'']))))
    (Cat (Star (trailing_chars U)) Eos)))"

text \<open>\<^verbatim>\<open>([a-zA-Z\s]+?)\s+weather\<close>\<close>

definition pattern2 :: "ucd \<Rightarrow> rx" where
  "pattern2 U =
     Cat (Grp (PlusLazy (city_chars U))) (Cat (Plus (py_isspace U)) (lit (ascii ''weather'')))"

section \<open>weather.py: city extraction\<close>

text \<open>\<open>m.group(1).strip().title()\<close>; \<open>.strip()\<close> on \<open>None\<close> raises AttributeError.\<close>

definition city_of_group :: "ucd \<Rightarrow> pystr option \<Rightarrow> exn + pystr" where
  "city_of_group U g =
     (case g of
        None \<Rightarrow>
          Inl (Exn AttributeError
            (quoted (ascii ''NoneType'') @ ascii '' object has no attribute '' @ quoted (ascii ''strip'')))
      | Some t \<Rightarrow> Inr (py_title U (py_strip U t)))"

definition extract_city_name :: "ucd \<Rightarrow> pystr \<Rightarrow> pystr \<Rightarrow> exn + pystr" where
  "extract_city_name U user_query default_city =
     (let text = py_lower U user_query in
      case re_search (pattern1 U) text of
        Some g \<Rightarrow> city_of_group U g
      | None \<Rightarrow>
          (case re_search (pattern2 U) text of
             Some g \<Rightarrow> city_of_group U g
           | None \<Rightarrow> Inr default_city))"

section \<open>Python values and the runtime\<close>

text \<open>
  The values a parsed JSON document holds, and the tuple (the response the repository's
  tests give the geocoder). Numbers are kept abstract: \<open>'n\<close> is the runtime's number
  (int or float), and what the program does with one (its truth value, \<open>str\<close>, the format
  \<open>.1f\<close>) is the runtime's. A dict is its items; \<open>map_of\<close> looks a key up.
\<close>

datatype 'n pyval =
    PNone
  | PBool bool
  | PNum 'n
  | PStr pystr
  | PList "'n pyval list"
  | PTuple "'n pyval list"
  | PDict "(pystr \<times> 'n pyval) list"

text \<open>
  What the Python runtime supplies: the Unicode tables, the truth value and the format
  \<open>.1f\<close> of a number (which can raise, as OverflowError on a huge int), \<open>str(v)\<close>, and the
  message of the error a built-in operation raises on a value.
\<close>

record 'n runtime =
  unicode :: ucd
  num_is_zero :: "'n \<Rightarrow> bool"
  format_1f :: "'n \<Rightarrow> exn + pystr"
  py_str :: "'n pyval \<Rightarrow> pystr"
  error_text :: "exn_class \<Rightarrow> 'n pyval \<Rightarrow> pystr"

definition bind_exn :: "exn + 'a \<Rightarrow> ('a \<Rightarrow> exn + 'b) \<Rightarrow> exn + 'b" where
  "bind_exn m f = (case m of Inl e \<Rightarrow> Inl e | Inr x \<Rightarrow> f x)"

text \<open>\<open>bool(v)\<close>, as \<open>not data\<close> tests it.\<close>

fun truthy :: "'n runtime \<Rightarrow> 'n pyval \<Rightarrow> bool" where
  "truthy R PNone = False"
| "truthy R (PBool b) = b"
| "truthy R (PNum n) = (\<not> num_is_zero R n)"
| "truthy R (PStr s) = (s \<noteq> [])"
| "truthy R (PList xs) = (xs \<noteq> [])"
| "truthy R (PTuple xs) = (xs \<noteq> [])"
| "truthy R (PDict kvs) = (kvs \<noteq> [])"

text \<open>\<open>len(v)\<close>: a TypeError on a value without a length.\<close>

fun py_len :: "'n runtime \<Rightarrow> 'n pyval \<Rightarrow> exn + nat" where
  "py_len R (PStr s) = Inr (length s)"
| "py_len R (PList xs) = Inr (length xs)"
| "py_len R (PTuple xs) = Inr (length xs)"
| "py_len R (PDict kvs) = Inr (length kvs)"
| "py_len R v = Inl (Exn TypeError (error_text R TypeError v))"

text \<open>\<open>v[key]\<close> for a string key: only a dict takes one; a missing key is a KeyError whose
  text is the key's \<open>repr\<close>.\<close>

fun getitem_str :: "'n runtime \<Rightarrow> 'n pyval \<Rightarrow> pystr \<Rightarrow> exn + 'n pyval" where
  "getitem_str R (PDict kvs) key =
     (case map_of kvs key of Some x \<Rightarrow> Inr x | None \<Rightarrow> Inl (Exn KeyError (quoted key)))"
| "getitem_str R v key = Inl (Exn TypeError (error_text R TypeError v))"

text \<open>\<open>v[0]\<close>. The keys of a parsed JSON object are strings, so \<open>0\<close> is no key of a dict.\<close>

fun getitem_0 :: "'n runtime \<Rightarrow> 'n pyval \<Rightarrow> exn + 'n pyval" where
  "getitem_0 R (PList (x # xs)) = Inr x"
| "getitem_0 R (PTuple (x # xs)) = Inr x"
| "getitem_0 R (PStr (c # cs)) = Inr (PStr [c])"
| "getitem_0 R (PList []) = Inl (Exn IndexError (error_text R IndexError (PList [])))"
| "getitem_0 R (PTuple []) = Inl (Exn IndexError (error_text R IndexError (PTuple [])))"
| "getitem_0 R (PStr []) = Inl (Exn IndexError (error_text R IndexError (PStr [])))"
| "getitem_0 R (PDict kvs) = Inl (Exn KeyError (ascii ''0''))"
| "getitem_0 R v = Inl (Exn TypeError (error_text R TypeError v))"

text \<open>\<open>v.capitalize()\<close>: only a string has the method.\<close>

fun capitalize_of :: "'n runtime \<Rightarrow> 'n pyval \<Rightarrow> exn + pystr" where
  "capitalize_of R (PStr s) = Inr (py_capitalize (unicode R) s)"
| "capitalize_of R v = Inl (Exn AttributeError (error_text R AttributeError v))"

text \<open>The replacement field \<^verbatim>\<open>{v:.1f}\<close>: numbers and booleans format, a string is a
  ValueError (unknown format code), anything else a TypeError.\<close>

fun fmt_1f :: "'n runtime \<Rightarrow> 'n pyval \<Rightarrow> exn + pystr" where
  "fmt_1f R (PNum n) = format_1f R n"
| "fmt_1f R (PBool b) = Inr (ascii (if b then ''1.0'' else ''0.0''))"
| "fmt_1f R (PStr s) = Inl (Exn ValueError (error_text R ValueError (PStr s)))"
| "fmt_1f R v = Inl (Exn TypeError (error_text R TypeError v))"

text \<open>\<open>d.get(key)\<close> on a dict: \<open>None\<close> for a missing key.\<close>

definition dict_get :: "(pystr \<times> 'n pyval) list \<Rightarrow> pystr \<Rightarrow> 'n pyval" where
  "dict_get kvs key = (case map_of kvs key of Some x \<Rightarrow> x | None \<Rightarrow> PNone)"

section \<open>weather.py: the summary\<close>

text \<open>The body of the \<open>try\<close> block of \<open>summarise_onecall\<close>, statement by statement.\<close>

definition summarise_try :: "'n runtime \<Rightarrow> 'n pyval \<Rightarrow> pystr \<Rightarrow> exn + pystr" where
  "summarise_try R weather_json city_name =
     bind_exn (getitem_str R weather_json (ascii ''current'')) (\<lambda>current.
     bind_exn (getitem_str R current (ascii ''weather'')) (\<lambda>w.
     bind_exn (getitem_0 R w) (\<lambda>w0.
     bind_exn (getitem_str R w0 (ascii ''description'')) (\<lambda>d.
     bind_exn (capitalize_of R d) (\<lambda>desc.
     bind_exn (getitem_str R current (ascii ''temp'')) (\<lambda>temp.
     bind_exn (getitem_str R current (ascii ''feels_like'')) (\<lambda>feels.
     bind_exn (getitem_str R current (ascii ''humidity'')) (\<lambda>hum.
     bind_exn (getitem_str R current (ascii ''wind_speed'')) (\<lambda>wind.
     bind_exn (fmt_1f R temp) (\<lambda>temp_text.
     bind_exn (fmt_1f R feels) (\<lambda>feels_text.
       Inr (ascii ''Current weather in '' @ city_name @ ascii '': '' @ temp_text @ [176]
            @ ascii ''C (feels like '' @ feels_text @ [176] @ ascii ''C), humidity ''
            @ py_str R hum @ ascii ''%, '' @ desc @ ascii '', wind '' @ py_str R wind
            @ ascii '' m/s.''))))))))))))"

definition parse_apology :: pystr where
  "parse_apology =
     ascii ''Sorry, I couldn'' @ [8217] @ ascii ''t parse the weather data correctly: ''"

definition summarise_onecall :: "'n runtime \<Rightarrow> 'n pyval \<Rightarrow> pystr \<Rightarrow> exn + pystr" where
  "summarise_onecall R weather_json city_name =
     (case summarise_try R weather_json city_name of
        Inr summary \<Rightarrow> Inr summary
      | Inl e \<Rightarrow> Inr (parse_apology @ exn_str e))"

section \<open>The collaborators and the log of a run\<close>

text \<open>
  The language model, the two HTTP helpers of weather.py (\<open>geocode_city\<close> and
  \<open>fetch_weather_onecall\<close>, which build a URL and return the parsed JSON of the response)
  and the vector store are outside the core: each is a function that returns or raises.
  The reply of the model is its \<open>content\<close>, a string or \<open>None\<close>. Writes to standard output
  (the DEBUG prints) are not modelled.
\<close>

datatype message = SystemMessage pystr | HumanMessage pystr

record document =
  page_content :: pystr

record 'n env =
  llm_invoke :: "message list \<Rightarrow> exn + pystr option"
  geocode_city :: "pystr \<Rightarrow> pystr \<Rightarrow> exn + 'n pyval"
  fetch_weather_onecall :: "'n pyval \<Rightarrow> 'n pyval \<Rightarrow> exn + 'n pyval"
  similarity_search :: "pystr \<Rightarrow> int \<Rightarrow> exn + document list"

text \<open>The keys of the graph state and the nodes of the graph (\<open>NStart\<close> stands for the
  caller's input).\<close>

datatype state_key = Question | Route | Context | Answer

datatype node = NStart | NDecision | NWeather | NRag | NAnswer

text \<open>A run is observed through its events: the calls it makes to the collaborators, with
  their arguments, and the writes of the nodes to the state.\<close>

datatype 'n event =
    LLMCall "message list"
  | GeocodeCall pystr pystr
  | OneCallCall "'n pyval" "'n pyval"
  | SearchCall pystr int
  | StateWrite node state_key pystr

type_synonym ('a, 'n) io = "(exn + 'a) \<times> 'n event list"

definition io_pure :: "exn + 'a \<Rightarrow> ('a, 'n) io" where
  "io_pure r = (r, [])"

definition io_call :: "'n event \<Rightarrow> exn + 'a \<Rightarrow> ('a, 'n) io" where
  "io_call ev r = (r, [ev])"

definition io_bind :: "('a, 'n) io \<Rightarrow> ('a \<Rightarrow> ('b, 'n) io) \<Rightarrow> ('b, 'n) io" where
  "io_bind m f =
     (case m of
        (Inl e, evs) \<Rightarrow> (Inl e, evs)
      | (Inr x, evs) \<Rightarrow> (case f x of (r, evs') \<Rightarrow> (r, evs @ evs')))"

section \<open>weather.py: the weather path\<close>

text \<open>The two accepted shapes of the geocoding response, and the ValueError for the rest.\<close>

definition coordinates ::
  "'n runtime \<Rightarrow> 'n pyval \<Rightarrow> exn + ('n pyval \<times> 'n pyval)" where
  "coordinates R data =
     (case data of
        PTuple [lat, lon] \<Rightarrow> Inr (lat, lon)
      | PList (PDict kvs # rest) \<Rightarrow> Inr (dict_get kvs (ascii ''lat''), dict_get kvs (ascii ''lon''))
      | _ \<Rightarrow> Inl (Exn ValueError (ascii ''Unexpected geocode response format: '' @ py_str R data)))"

text \<open>\<open>if not data or len(data) == 0: raise ValueError(...)\<close>: \<open>len\<close> is evaluated only on a
  truthy value.\<close>

definition check_geocoded ::
  "'n runtime \<Rightarrow> 'n pyval \<Rightarrow> pystr \<Rightarrow> pystr \<Rightarrow> exn + unit" where
  "check_geocoded R data city country_hint =
     (let failed = Inl (Exn ValueError
            (ascii ''Could not geocode city: '' @ city @ ascii '','' @ country_hint))
      in if \<not> truthy R data then failed
         else bind_exn (py_len R data) (\<lambda>n. if n = 0 then failed else Inr ()))"

definition fetch_weather_for_city ::
  "'n runtime \<Rightarrow> 'n env \<Rightarrow> pystr \<Rightarrow> pystr \<Rightarrow> pystr \<Rightarrow> (pystr, 'n) io" where
  "fetch_weather_for_city R E user_query default_city country_hint =
     io_bind (io_pure (extract_city_name (unicode R) user_query default_city)) (\<lambda>city.
     io_bind (io_call (GeocodeCall city country_hint) (geocode_city E city country_hint)) (\<lambda>data.
     io_bind (io_pure (check_geocoded R data city country_hint)) (\<lambda>_.
     io_bind (io_pure (coordinates R data)) (\<lambda>(lat, lon).
     io_bind (io_call (OneCallCall lat lon) (fetch_weather_onecall E lat lon)) (\<lambda>weather.
     io_pure (summarise_onecall R weather city))))))"

section \<open>rag.py: retrieval\<close>

text \<open>The loop \<open>for doc in docs: contents.append(doc.page_content)\<close>.\<close>

fun collect_contents :: "pystr list \<Rightarrow> document list \<Rightarrow> pystr list" where
  "collect_contents contents [] = contents"
| "collect_contents contents (doc # docs) = collect_contents (contents @ [page_content doc]) docs"

definition retrieve_context :: "'n env \<Rightarrow> pystr \<Rightarrow> int \<Rightarrow> (pystr, 'n) io" where
  "retrieve_context E query k =
     io_bind (io_call (SearchCall query k) (similarity_search E query k)) (\<lambda>docs.
     io_pure (Inr (py_join [10, 10] (collect_contents [] docs))))"

section \<open>graph.py: the state and the nodes\<close>

text \<open>
  The graph state is a dict over the four keys of \<open>GraphState\<close>; a key that was never
  written is absent. A node returns the dict of the keys it writes, in the order of its
  \<open>return\<close> statement.
\<close>

type_synonym graph_state = "state_key \<Rightarrow> pystr option"

type_synonym update = "(state_key \<times> pystr) list"

fun key_name :: "state_key \<Rightarrow> pystr" where
  "key_name Question = ascii ''question''"
| "key_name Route = ascii ''route''"
| "key_name Context = ascii ''context''"
| "key_name Answer = ascii ''answer''"

text \<open>\<open>state[key]\<close>: a KeyError on an absent key.\<close>

definition state_item :: "graph_state \<Rightarrow> state_key \<Rightarrow> exn + pystr" where
  "state_item state key =
     (case state key of None \<Rightarrow> Inl (Exn KeyError (quoted (key_name key))) | Some v \<Rightarrow> Inr v)"

text \<open>\<open>x or ""\<close> for \<open>x\<close> a string or \<open>None\<close>.\<close>

definition or_empty :: "pystr option \<Rightarrow> pystr" where
  "or_empty x = (case x of None \<Rightarrow> [] | Some s \<Rightarrow> s)"

definition classifier_prompt :: pystr where
  "classifier_prompt =
     ascii ''You are a classifier. If the user is asking about the weather, output ''
     @ quoted (ascii ''weather'') @ ascii ''. Otherwise output '' @ quoted (ascii ''pdf'')
     @ ascii ''. Return only that word.''"

text \<open>The two assignments to \<open>route\<close> in \<open>decision_node\<close>, from the \<open>content\<close> of the reply.\<close>

definition route_of_reply :: "'n runtime \<Rightarrow> pystr option \<Rightarrow> pystr" where
  "route_of_reply R content =
     (let route = py_lower (unicode R) (py_strip (unicode R) (or_empty content))
      in if py_in (ascii ''weather'') route then ascii ''weather'' else ascii ''pdf'')"

definition decision_node :: "'n runtime \<Rightarrow> 'n env \<Rightarrow> graph_state \<Rightarrow> (update, 'n) io" where
  "decision_node R E state =
     io_bind (io_pure (state_item state Question)) (\<lambda>question.
     let messages = [SystemMessage classifier_prompt, HumanMessage question] in
     io_bind (io_call (LLMCall messages) (llm_invoke E messages)) (\<lambda>content.
     io_pure (Inr [(Route, route_of_reply R content)])))"

definition fetch_apology :: pystr where
  "fetch_apology =
     ascii ''Sorry, I couldn'' @ [8217] @ ascii ''t fetch the weather right now: ''"

text \<open>The \<open>try\<close> of \<open>weather_node\<close> encloses the call of \<open>fetch_weather_for_city\<close>; the read of
  the question stands before it.\<close>

definition weather_node :: "'n runtime \<Rightarrow> 'n env \<Rightarrow> graph_state \<Rightarrow> (update, 'n) io" where
  "weather_node R E state =
     io_bind (io_pure (state_item state Question)) (\<lambda>question.
     case fetch_weather_for_city R E question (ascii ''Hyderabad'') (ascii ''IN'') of
       (Inr summary, evs) \<Rightarrow>
         (Inr [(Context, summary), (Route, ascii ''weather'')], evs)
     | (Inl ex, evs) \<Rightarrow>
         (Inr [(Context, fetch_apology @ exn_str ex), (Route, ascii ''weather'')], evs))"

definition rag_node :: "'n runtime \<Rightarrow> 'n env \<Rightarrow> graph_state \<Rightarrow> (update, 'n) io" where
  "rag_node R E state =
     io_bind (io_pure (state_item state Question)) (\<lambda>question.
     io_bind (retrieve_context E question 5) (\<lambda>retrieved.
     io_pure (Inr [(Context, or_empty (Some retrieved)), (Route, ascii ''pdf'')])))"

definition context_prompt :: "pystr \<Rightarrow> pystr" where
  "context_prompt ctx =
     ascii ''You are a helpful assistant. ''
     @ ascii ''The following context contains the exact answer to the user'' @ [39]
     @ ascii ''s question. ''
     @ ascii ''Use the context directly and DO NOT reply with '' @ [39] @ ascii ''I don'' @ [39]
     @ ascii ''t know'' @ [39] @ ascii ''. ''
     @ ascii ''Respond concisely.'' @ [10, 10]
     @ ascii ''Context:'' @ [10] @ ctx @ [10, 10]"

definition plain_prompt :: pystr where
  "plain_prompt =
     ascii ''You are a helpful assistant. Answer the question to the best of your ability.''"

definition answer_node :: "'n runtime \<Rightarrow> 'n env \<Rightarrow> graph_state \<Rightarrow> (update, 'n) io" where
  "answer_node R E state =
     io_bind (io_pure (state_item state Question)) (\<lambda>question.
     let ctx = or_empty (state Context);
         system_prompt =
           (if py_strip (unicode R) ctx \<noteq> [] then context_prompt ctx else plain_prompt);
         messages = [SystemMessage system_prompt, HumanMessage question] in
     io_bind (io_call (LLMCall messages) (llm_invoke E messages)) (\<lambda>content.
     io_pure (Inr [(Answer, py_strip (unicode R) (or_empty content))])))"

section \<open>graph.py: the wiring\<close>

text \<open>
  The compiled graph runs the entry node, merges the dict it returns into the state (each
  key of the dict overwrites that key of the state), follows the edge that leaves the node,
  and stops at END (\<open>None\<close> below). The graph library is not part of the repository; it
  stops a run after \<open>recursion_limit\<close> steps with an error.
\<close>

fun node_fn :: "node \<Rightarrow> 'n runtime \<Rightarrow> 'n env \<Rightarrow> graph_state \<Rightarrow> (update, 'n) io" where
  "node_fn NDecision = decision_node"
| "node_fn NWeather = weather_node"
| "node_fn NRag = rag_node"
| "node_fn NAnswer = answer_node"
| "node_fn NStart = (\<lambda>R E state. io_pure (Inr []))"

definition apply_update :: "graph_state \<Rightarrow> update \<Rightarrow> graph_state" where
  "apply_update state u = fold (\<lambda>(k, v) st. st(k \<mapsto> v)) u state"

definition writes_of :: "node \<Rightarrow> update \<Rightarrow> 'n event list" where
  "writes_of nd u = map (\<lambda>(k, v). StateWrite nd k v) u"

definition run_node :: "node \<Rightarrow> 'n runtime \<Rightarrow> 'n env \<Rightarrow> graph_state \<Rightarrow> (graph_state, 'n) io" where
  "run_node nd R E state =
     io_bind (node_fn nd R E state) (\<lambda>u. (Inr (apply_update state u), writes_of nd u))"

definition route_edge :: "graph_state \<Rightarrow> exn + pystr" where
  "route_edge state = state_item state Route"

text \<open>The mapping of the conditional edge; a label outside it is a KeyError.\<close>

definition path_map :: "pystr \<Rightarrow> exn + node" where
  "path_map label =
     (if label = ascii ''weather'' then Inr NWeather
      else if label = ascii ''pdf'' then Inr NRag
      else Inl (Exn KeyError (quoted label)))"

fun next_node :: "node \<Rightarrow> graph_state \<Rightarrow> exn + node option" where
  "next_node NStart state = Inr (Some NDecision)"
| "next_node NDecision state =
     bind_exn (route_edge state) (\<lambda>label. bind_exn (path_map label) (\<lambda>nd. Inr (Some nd)))"
| "next_node NWeather state = Inr (Some NAnswer)"
| "next_node NRag state = Inr (Some NAnswer)"
| "next_node NAnswer state = Inr None"

definition recursion_limit :: nat where
  "recursion_limit = 25"

fun run_from :: "nat \<Rightarrow> 'n runtime \<Rightarrow> 'n env \<Rightarrow> node \<Rightarrow> graph_state \<Rightarrow> (graph_state, 'n) io" where
  "run_from 0 R E nd state = (Inl (Exn OtherError (ascii ''GraphRecursionError'')), [])"
| "run_from (Suc fuel) R E nd state =
     io_bind (run_node nd R E state) (\<lambda>state'.
     io_bind (io_pure (next_node nd state')) (\<lambda>nxt.
     case nxt of None \<Rightarrow> io_pure (Inr state') | Some nd' \<Rightarrow> run_from fuel R E nd' state'))"

text \<open>\<open>pipeline.invoke(input)\<close>: the caller's dict is written to the state, then the graph
  runs from its entry point, the decision node.\<close>

definition pipeline_invoke :: "'n runtime \<Rightarrow> 'n env \<Rightarrow> update \<Rightarrow> (graph_state, 'n) io" where
  "pipeline_invoke R E input =
     io_bind (Inr (apply_update Map.empty input), writes_of NStart input) (\<lambda>state.
     run_from recursion_limit R E NDecision state)"

section \<open>Observations and sample collaborators\<close>

text \<open>The writes to the state among the events of a run, in order.\<close>

definition writes :: "'n event list \<Rightarrow> (node \<times> state_key \<times> pystr) list" where
  "writes evs =
     concat (map (\<lambda>ev. case ev of StateWrite nd k v \<Rightarrow> [(nd, k, v)] | _ \<Rightarrow> []) evs)"

text \<open>A pattern in which capture group 1 takes part in every match.\<close>

fun sets_group :: "rx \<Rightarrow> bool" where
  "sets_group (Grp a) = True"
| "sets_group (Cat a b) = (sets_group a \<or> sets_group b)"
| "sets_group (Alt a b) = (sets_group a \<and> sets_group b)"
| "sets_group r = False"

text \<open>
  The entries of the Unicode character database that the evaluations below consult:
  U+0131 (dotless i) is lowercase, cased, and its uppercase and titlecase are U+0049 (I);
  U+00DF (sharp s) uppercases to SS and titlecases to Ss; U+00A0 (no-break space) is
  whitespace. Every other entry is a placeholder that no evaluation reads.
\<close>

definition unicode_excerpt :: ucd where
  "unicode_excerpt =
     \<lparr> lower_ext = (\<lambda>c. [c]),
       upper_ext = (\<lambda>c. if c = 305 then [73] else if c = 223 then [83, 83] else [c]),
       title_ext = (\<lambda>c. if c = 305 then [73] else if c = 223 then [83, 115] else [c]),
       cased_ext = (\<lambda>c. c = 305 \<or> c = 223),
       space_ext = (\<lambda>c. c = 160) \<rparr>"

text \<open>
  A stand-in runtime for evaluating the model on concrete inputs: its numbers are the
  naturals, printed in decimal (\<open>.1f\<close> appends \<open>.0\<close>); \<open>str\<close> of a container and the
  texts of built-in errors are abbreviated.
\<close>

fun decimal :: "nat \<Rightarrow> pystr" where
  "decimal n = (if n < 10 then [48 + n] else decimal (n div 10) @ [48 + n mod 10])"

declare decimal.simps [simp del]

fun sample_str :: "nat pyval \<Rightarrow> pystr" where
  "sample_str PNone = ascii ''None''"
| "sample_str (PBool b) = ascii (if b then ''True'' else ''False'')"
| "sample_str (PNum n) = decimal n"
| "sample_str (PStr s) = s"
| "sample_str v = ascii ''...''"

definition sample_runtime :: "nat runtime" where
  "sample_runtime =
     \<lparr> unicode = unicode_excerpt,
       num_is_zero = (\<lambda>n. n = 0),
       format_1f = (\<lambda>n. Inr (decimal n @ ascii ''.0'')),
       py_str = sample_str,
       error_text = (\<lambda>c v. ascii ''unsupported'') \<rparr>"

text \<open>
  The collaborators of the repository's tests: \<open>FakeModel\<close> of tests/test_graph.py answers
  \<open>weather\<close> when the last message contains that word and a fixed sentence otherwise; the
  geocoder and the conditions fetch are the two stubs of tests/test_api.py (with whole
  numbers); the vector store holds the one passage of tests/test_graph.py.
\<close>

fun message_content :: "message \<Rightarrow> pystr" where
  "message_content (SystemMessage c) = c"
| "message_content (HumanMessage c) = c"

definition fake_model :: "message list \<Rightarrow> exn + pystr option" where
  "fake_model messages =
     (if messages = [] then Inl (Exn IndexError (ascii ''list index out of range''))
      else if py_in (ascii ''weather'')
                (py_lower unicode_excerpt (message_content (last messages)))
      then Inr (Some (ascii ''weather''))
      else Inr (Some (ascii ''Paris is the capital of France.'')))"

definition mock_weather_json :: "nat pyval" where
  "mock_weather_json =
     PDict [(ascii ''current'', PDict
       [(ascii ''temp'', PNum 25), (ascii ''feels_like'', PNum 26), (ascii ''humidity'', PNum 70),
        (ascii ''wind_speed'', PNum 4),
        (ascii ''weather'', PList [PDict [(ascii ''description'', PStr (ascii ''clear sky''))]])])]"

definition sample_env :: "nat env" where
  "sample_env =
     \<lparr> llm_invoke = fake_model,
       geocode_city = (\<lambda>city hint. Inr (PTuple [PNum 17, PNum 78])),
       fetch_weather_onecall = (\<lambda>lat lon. Inr mock_weather_json),
       similarity_search =
         (\<lambda>query k. Inr [\<lparr> page_content = ascii ''Paris is the capital of France.'' \<rparr>]) \<rparr>"

text \<open>The shapes of a geocoding response that the code tests for: a tuple of length 2, a
  list that starts with a dict, and a value that has a length.\<close>

fun is_pair :: "'n pyval \<Rightarrow> bool" where
  "is_pair (PTuple [lat, lon]) = True"
| "is_pair v = False"

fun is_dict_list :: "'n pyval \<Rightarrow> bool" where
  "is_dict_list (PList (PDict kvs # rest)) = True"
| "is_dict_list v = False"

fun sized :: "'n pyval \<Rightarrow> bool" where
  "sized (PStr s) = True"
| "sized (PList xs) = True"
| "sized (PTuple xs) = True"
| "sized (PDict kvs) = True"
| "sized v = False"

text \<open>The list shape in the words of the specification: a list whose first element is an
  object that exposes latitude and longitude fields.\<close>

fun spec_exposes_lat_lon :: "'n pyval \<Rightarrow> bool" where
  "spec_exposes_lat_lon (PList (PDict kvs # rest)) =
     (map_of kvs (ascii ''lat'') \<noteq> None \<and> map_of kvs (ascii ''lon'') \<noteq> None)"
| "spec_exposes_lat_lon v = False"

section \<open>Lemmas\<close>

subsection \<open>Strings\<close>

lemma py_startswith_iff: "py_startswith sub s \<longleftrightarrow> (\<exists>b. s = sub @ b)"
  by (induction sub s rule: py_startswith.induct) auto

lemma py_in_iff: "py_in sub s \<longleftrightarrow> (\<exists>a b. s = a @ sub @ b)"
proof (induction s)
  case Nil
  then show ?case by auto
next
  case (Cons x xs)
  show ?case
  proof
    assume "py_in sub (x # xs)"
    then consider "py_startswith sub (x # xs)" | "py_in sub xs" by auto
    then show "\<exists>a b. x # xs = a @ sub @ b"
    proof cases
      case 1
      then obtain b where "x # xs = sub @ b" by (auto simp: py_startswith_iff)
      then have "x # xs = [] @ sub @ b" by simp
      then show ?thesis by blast
    next
      case 2
      with Cons.IH obtain a b where "xs = a @ sub @ b" by blast
      then have "x # xs = (x # a) @ sub @ b" by simp
      then show ?thesis by blast
    qed
  next
    assume "\<exists>a b. x # xs = a @ sub @ b"
    then obtain a b where ab: "x # xs = a @ sub @ b" by blast
    show "py_in sub (x # xs)"
    proof (cases a)
      case Nil
      with ab have "py_startswith sub (x # xs)" by (auto simp: py_startswith_iff)
      then show ?thesis by simp
    next
      case (Cons y ys)
      with ab have "xs = ys @ sub @ b" by simp
      with Cons.IH have "py_in sub xs" by blast
      then show ?thesis by simp
    qed
  qed
qed



subsection \<open>The matcher reaches its continuation\<close>

lemma star_greedy_cont: "star_greedy p s k = Some res \<Longrightarrow> \<exists>s'. k s' = Some res"
  by (induction s) (auto split: if_splits option.splits)

lemma star_lazy_cont: "star_lazy p s k = Some res \<Longrightarrow> \<exists>s'. k s' = Some res"
  by (induction s) (auto split: if_splits option.splits)

lemma bt_cont:
  "bt r s g k = Some res \<Longrightarrow> \<exists>s' g'. k s' g' = Some res \<and> (g \<noteq> None \<longrightarrow> g' \<noteq> None)"
proof (induction r arbitrary: s g k)
  case (Cat a b)
  from Cat.prems have "bt a s g (\<lambda>s' g'. bt b s' g' k) = Some res" by simp
  from Cat.IH(1)[OF this] obtain s1 g1 where
    1: "bt b s1 g1 k = Some res" and 2: "g \<noteq> None \<longrightarrow> g1 \<noteq> None" by blast
  from Cat.IH(2)[OF 1] 2 show ?case by blast
next
  case (Grp a)
  from Grp.prems
  have "bt a s g (\<lambda>s' g'. k s' (Some (take (length s - length s') s))) = Some res"
    by simp
  from Grp.IH[OF this] show ?case by blast
qed (auto split: if_splits option.splits list.splits dest!: star_greedy_cont star_lazy_cont)

lemma bt_sets_group:
  "sets_group r \<Longrightarrow> bt r s g k = Some res \<Longrightarrow> \<exists>s' g'. k s' g' = Some res \<and> g' \<noteq> None"
proof (induction r arbitrary: s g k)
  case (Cat a b)
  from Cat.prems(2) have A: "bt a s g (\<lambda>s' g'. bt b s' g' k) = Some res" by simp
  show ?case
  proof (cases "sets_group a")
    case True
    from Cat.IH(1)[OF True A] obtain s1 g1 where
      1: "bt b s1 g1 k = Some res" and 2: "g1 \<noteq> None" by blast
    from bt_cont[OF 1] 2 show ?thesis by blast
  next
    case False
    with Cat.prems(1) have B: "sets_group b" by simp
    from bt_cont[OF A] obtain s1 g1 where 1: "bt b s1 g1 k = Some res" by blast
    from Cat.IH(2)[OF B 1] show ?thesis .
  qed
next
  case (Alt a b)
  then show ?case by (auto split: option.splits)
next
  case (Grp a)
  from Grp.prems
  have "bt a s g (\<lambda>s' g'. k s' (Some (take (length s - length s') s))) = Some res"
    by simp
  from bt_cont[OF this] show ?case by blast
qed simp_all

lemma re_search_group: "sets_group r \<Longrightarrow> re_search r s = Some g \<Longrightarrow> g \<noteq> None"
proof (induction s)
  case Nil
  then show ?case using bt_sets_group [of r "[]" None "\<lambda>s g. Some g" g] by auto
next
  case (Cons x xs)
  then show ?case using bt_sets_group [of r "x # xs" None "\<lambda>s g. Some g"]
    by (auto split: option.splits)
qed

lemma sets_group_pattern1: "sets_group (pattern1 U)"
  by (simp add: pattern1_def)

lemma sets_group_pattern2: "sets_group (pattern2 U)"
  by (simp add: pattern2_def)

text \<open>The definitions that evaluating \<open>extract_city_name\<close> on a given text unfolds.\<close>

lemmas extract_eval =
  pattern1_def pattern2_def ascii_def city_chars_def trailing_chars_def py_isspace_def
  is_ascii_letter_def is_ascii_upper_def is_ascii_lower_def extract_city_name_def py_lower_def
  lower_cp_def city_of_group_def py_title_def py_strip_def title_cp_def is_cased_def
  py_upper_def upper_cp_def unicode_excerpt_def

lemma extract_city_name_total: "\<exists>city. extract_city_name U q d = Inr city"
proof -
  have 1: "\<And>g. re_search (pattern1 U) (py_lower U q) = Some g \<Longrightarrow> g \<noteq> None"
    using re_search_group [OF sets_group_pattern1] by blast
  have 2: "\<And>g. re_search (pattern2 U) (py_lower U q) = Some g \<Longrightarrow> g \<noteq> None"
    using re_search_group [OF sets_group_pattern2] by blast
  show ?thesis
  proof (cases "re_search (pattern1 U) (py_lower U q)")
    case (Some g)
    with 1 obtain t where "g = Some t" by blast
    with Some show ?thesis by (simp add: extract_city_name_def city_of_group_def)
  next
    case None
    show ?thesis
    proof (cases "re_search (pattern2 U) (py_lower U q)")
      case (Some g)
      with 2 obtain t where "g = Some t" by blast
      with Some None show ?thesis by (simp add: extract_city_name_def city_of_group_def)
    next
      case n2: None
      with None show ?thesis by (simp add: extract_city_name_def)
    qed
  qed
qed

section \<open>City extraction\<close>

text \<open>
  C4. \<open>extract_city_name\<close> searches the lowercased question for pattern 1 and only when that
  finds nothing for pattern 2. The first pattern that matches decides: the text of its
  group, stripped and title-cased, is returned, whatever the other pattern would find. When
  neither matches, the default city is returned unchanged. No input makes the function
  raise. On the four questions of the specification the results are Paris, New York,
  Hyderabad and the default.
\<close>

theorem extract_city_name_first_match_wins:
  "(\<forall>g. re_search (pattern1 U) (py_lower U q) = Some g \<longrightarrow>
      (\<exists>t. g = Some t \<and> extract_city_name U q d = Inr (py_title U (py_strip U t))))
   \<and> (re_search (pattern1 U) (py_lower U q) = None \<longrightarrow>
      (\<forall>g. re_search (pattern2 U) (py_lower U q) = Some g \<longrightarrow>
        (\<exists>t. g = Some t \<and> extract_city_name U q d = Inr (py_title U (py_strip U t)))))
   \<and> (re_search (pattern1 U) (py_lower U q) = None
        \<and> re_search (pattern2 U) (py_lower U q) = None \<longrightarrow>
      extract_city_name U q d = Inr d)
   \<and> extract_city_name U (ascii ''What is the weather in Paris today?'') d = Inr (ascii ''Paris'')
   \<and> extract_city_name U (ascii ''tell me the weather in New York now'') d
        = Inr (ascii ''New York'')
   \<and> extract_city_name U (ascii ''Hyderabad weather now'') d = Inr (ascii ''Hyderabad'')
   \<and> extract_city_name U (ascii ''What'' @ [39] @ ascii ''s up?'') d = Inr d"
proof -
  have g1: "\<And>g. re_search (pattern1 U) (py_lower U q) = Some g \<Longrightarrow> \<exists>t. g = Some t"
    using re_search_group [OF sets_group_pattern1] by blast
  have g2: "\<And>g. re_search (pattern2 U) (py_lower U q) = Some g \<Longrightarrow> \<exists>t. g = Some t"
    using re_search_group [OF sets_group_pattern2] by blast
  have a: "\<forall>g. re_search (pattern1 U) (py_lower U q) = Some g \<longrightarrow>
      (\<exists>t. g = Some t \<and> extract_city_name U q d = Inr (py_title U (py_strip U t)))"
    using g1 by (fastforce simp: extract_city_name_def city_of_group_def)
  have b: "re_search (pattern1 U) (py_lower U q) = None \<longrightarrow>
      (\<forall>g. re_search (pattern2 U) (py_lower U q) = Some g \<longrightarrow>
        (\<exists>t. g = Some t \<and> extract_city_name U q d = Inr (py_title U (py_strip U t))))"
    using g2 by (fastforce simp: extract_city_name_def city_of_group_def)
  have c: "re_search (pattern1 U) (py_lower U q) = None
        \<and> re_search (pattern2 U) (py_lower U q) = None \<longrightarrow>
      extract_city_name U q d = Inr d"
    by (simp add: extract_city_name_def)
  have e1: "extract_city_name U (ascii ''What is the weather in Paris today?'') d
      = Inr (ascii ''Paris'')"
    by (simp add: extract_eval)
  have e2: "extract_city_name U (ascii ''tell me the weather in New York now'') d
      = Inr (ascii ''New York'')"
    by (simp add: extract_eval)
  have e3: "extract_city_name U (ascii ''Hyderabad weather now'') d = Inr (ascii ''Hyderabad'')"
    by (simp add: extract_eval)
  have e4: "extract_city_name U (ascii ''What'' @ [39] @ ascii ''s up?'') d = Inr d"
    by (simp add: extract_eval)
  from a b c e1 e2 e3 e4 show ?thesis by blast
qed

text \<open>The three cases at concrete questions: pattern 1 decides although pattern 2 matches
  too (its group would be \<open>what is the\<close>); pattern 2 decides when pattern 1 finds nothing;
  the default comes back when neither matches.\<close>

theorem extract_city_name_first_match_wins_witness:
  "re_search (pattern1 unicode_excerpt)
      (py_lower unicode_excerpt (ascii ''What is the weather in Paris today?''))
     = Some (Some (ascii ''paris''))
   \<and> re_search (pattern2 unicode_excerpt)
      (py_lower unicode_excerpt (ascii ''What is the weather in Paris today?''))
     = Some (Some (ascii ''what is the''))
   \<and> extract_city_name unicode_excerpt (ascii ''What is the weather in Paris today?'')
      (ascii ''Pune'') = Inr (py_title unicode_excerpt (py_strip unicode_excerpt (ascii ''paris'')))
   \<and> re_search (pattern1 unicode_excerpt)
      (py_lower unicode_excerpt (ascii ''Hyderabad weather now'')) = None
   \<and> re_search (pattern2 unicode_excerpt)
      (py_lower unicode_excerpt (ascii ''Hyderabad weather now'')) = Some (Some (ascii ''hyderabad''))
   \<and> extract_city_name unicode_excerpt (ascii ''Hyderabad weather now'') (ascii ''Pune'')
     = Inr (ascii ''Hyderabad'')
   \<and> re_search (pattern1 unicode_excerpt) (py_lower unicode_excerpt (ascii ''hello there'')) = None
   \<and> re_search (pattern2 unicode_excerpt) (py_lower unicode_excerpt (ascii ''hello there'')) = None
   \<and> extract_city_name unicode_excerpt (ascii ''hello there'') (ascii ''Pune'') = Inr (ascii ''Pune'')"
proof -
  have p1: "re_search (pattern1 unicode_excerpt)
      (py_lower unicode_excerpt (ascii ''What is the weather in Paris today?''))
     = Some (Some (ascii ''paris''))"
    by (simp add: extract_eval)
  have p2: "re_search (pattern2 unicode_excerpt)
      (py_lower unicode_excerpt (ascii ''What is the weather in Paris today?''))
     = Some (Some (ascii ''what is the''))"
    by (simp add: extract_eval)
  have h1: "re_search (pattern1 unicode_excerpt)
      (py_lower unicode_excerpt (ascii ''Hyderabad weather now'')) = None"
    by (simp add: extract_eval)
  have h2: "re_search (pattern2 unicode_excerpt)
      (py_lower unicode_excerpt (ascii ''Hyderabad weather now'')) = Some (Some (ascii ''hyderabad''))"
    by (simp add: extract_eval)
  have n1: "re_search (pattern1 unicode_excerpt)
      (py_lower unicode_excerpt (ascii ''hello there'')) = None"
    by (simp add: extract_eval)
  have n2: "re_search (pattern2 unicode_excerpt)
      (py_lower unicode_excerpt (ascii ''hello there'')) = None"
    by (simp add: extract_eval)
  note paris = extract_city_name_first_match_wins
    [of unicode_excerpt "ascii ''What is the weather in Paris today?''" "ascii ''Pune''"]
  note hello = extract_city_name_first_match_wins
    [of unicode_excerpt "ascii ''hello there''" "ascii ''Pune''"]
  from paris p1 have r1: "extract_city_name unicode_excerpt
      (ascii ''What is the weather in Paris today?'') (ascii ''Pune'')
      = Inr (py_title unicode_excerpt (py_strip unicode_excerpt (ascii ''paris'')))"
    by blast
  from paris have r2: "extract_city_name unicode_excerpt (ascii ''Hyderabad weather now'')
      (ascii ''Pune'') = Inr (ascii ''Hyderabad'')"
    by blast
  from hello n1 n2 have r3: "extract_city_name unicode_excerpt (ascii ''hello there'')
      (ascii ''Pune'') = Inr (ascii ''Pune'')"
    by blast
  from p1 p2 r1 h1 h2 r2 n1 n2 r3 show ?thesis by blast
qed

subsection \<open>Results and events\<close>

lemma bind_exn_simps [simp]: "bind_exn (Inl e) f = Inl e" "bind_exn (Inr x) f = f x"
  by (simp_all add: bind_exn_def)

lemma io_bind_Inl [simp]: "io_bind (Inl e, evs) f = (Inl e, evs)"
  by (simp add: io_bind_def)

lemma io_bind_Inr [simp]: "io_bind (Inr x, evs) f = (fst (f x), evs @ snd (f x))"
  by (simp add: io_bind_def split: prod.splits)

lemma io_bind_pure [simp]: "io_bind (io_pure (Inr x)) f = f x"
  by (simp add: io_pure_def)

lemma io_bind_pure_Inl [simp]: "io_bind (io_pure (Inl e)) f = (Inl e, [])"
  by (simp add: io_pure_def)

lemma state_item_Some [simp]: "state key = Some v \<Longrightarrow> state_item state key = Inr v"
  by (simp add: state_item_def)

lemma writes_simps [simp]:
  "writes [] = []"
  "writes (StateWrite nd k v # evs) = (nd, k, v) # writes evs"
  "writes (LLMCall m # evs) = writes evs"
  "writes (GeocodeCall c h # evs) = writes evs"
  "writes (OneCallCall la lo # evs) = writes evs"
  "writes (SearchCall q n # evs) = writes evs"
  "writes (evs @ evs') = writes evs @ writes evs'"
  by (simp_all add: writes_def)

subsection \<open>The geocoding response\<close>

lemma is_pair_iff: "is_pair v \<longleftrightarrow> (\<exists>lat lon. v = PTuple [lat, lon])"
  by (induction v rule: is_pair.induct) auto

lemma is_dict_list_iff: "is_dict_list v \<longleftrightarrow> (\<exists>kvs rest. v = PList (PDict kvs # rest))"
  by (induction v rule: is_dict_list.induct) auto

lemma coordinates_rejects:
  "\<not> (is_pair data \<or> is_dict_list data) \<Longrightarrow>
   coordinates R data =
     Inl (Exn ValueError (ascii ''Unexpected geocode response format: '' @ py_str R data))"
  unfolding coordinates_def
  by (induction data rule: is_pair.induct; induction data rule: is_dict_list.induct)
    (auto split: list.splits pyval.splits)

lemma shape_truthy: "is_pair data \<or> is_dict_list data \<Longrightarrow> truthy R data \<and> sized data"
  by (auto simp: is_pair_iff is_dict_list_iff)

lemma check_geocoded_sized:
  "sized data \<Longrightarrow>
   check_geocoded R data city h =
     (if truthy R data then Inr ()
      else Inl (Exn ValueError (ascii ''Could not geocode city: '' @ city @ ascii '','' @ h)))"
  by (cases data) (auto simp: check_geocoded_def Let_def)

lemma check_geocoded_falsy:
  "\<not> truthy R data \<Longrightarrow>
   check_geocoded R data city h =
     Inl (Exn ValueError (ascii ''Could not geocode city: '' @ city @ ascii '','' @ h))"
  by (simp add: check_geocoded_def Let_def)

subsection \<open>The summary\<close>

lemma summarise_try_prefix:
  "summarise_try R w city = Inr s \<Longrightarrow>
   \<exists>rest. s = ascii ''Current weather in '' @ city @ ascii '': '' @ rest"
  unfolding summarise_try_def
  by (auto simp: bind_exn_def split: sum.splits)

lemma collect_contents_eq: "collect_contents acc docs = acc @ map page_content docs"
  by (induction docs arbitrary: acc) simp_all




section \<open>The weather summary\<close>


text \<open>The data of the test: a summary. A dict without \<open>current\<close>, \<open>None\<close>, and a
  description that is a number: three apologies.\<close>

lemmas summarise_eval =
  summarise_onecall_def summarise_try_def mock_weather_json_def sample_runtime_def ascii_def
  py_capitalize_def title_cp_def py_lower_def lower_cp_def is_ascii_lower_def is_ascii_upper_def
  decimal.simps parse_apology_def quoted_def unicode_excerpt_def


section \<open>Retrieval\<close>

text \<open>
  C7. \<open>retrieve_context\<close> makes one similarity search with the query and \<open>k\<close> and returns
  the \<open>page_content\<close> of the documents the search gave, every one of them and in the order
  given, joined by two newlines; for no documents that is the empty string. An error of the
  search is raised on. The rag node calls it with \<open>k = 5\<close> and stores the text as Context.
\<close>

theorem retrieve_context_joins:
  "retrieve_context E query k =
     (case similarity_search E query k of
        Inl e \<Rightarrow> (Inl e, [SearchCall query k])
      | Inr docs \<Rightarrow> (Inr (py_join [10, 10] (map page_content docs)), [SearchCall query k]))
   \<and> (similarity_search E query k = Inr [] \<longrightarrow> fst (retrieve_context E query k) = Inr [])
   \<and> (state Question = Some query \<longrightarrow>
        rag_node R E state =
          (case similarity_search E query 5 of
             Inl e \<Rightarrow> (Inl e, [SearchCall query 5])
           | Inr docs \<Rightarrow>
               (Inr [(Context, py_join [10, 10] (map page_content docs)), (Route, ascii ''pdf'')],
                [SearchCall query 5])))"
  by (auto simp: retrieve_context_def rag_node_def io_call_def io_pure_def
      collect_contents_eq or_empty_def split: sum.splits)

text \<open>A store that gives the same passage twice and then another one: all three are
  returned, in that order. A store without a match: the empty string.\<close>

theorem retrieve_context_joins_witness:
  "fst (retrieve_context
     (sample_env \<lparr> similarity_search := (\<lambda>query k.
        Inr [\<lparr> page_content = ascii ''A B'' \<rparr>, \<lparr> page_content = ascii ''A B'' \<rparr>,
             \<lparr> page_content = ascii ''C'' \<rparr>]) \<rparr>)
     (ascii ''where?'') 5)
     = Inr (ascii ''A B'' @ [10, 10] @ ascii ''A B'' @ [10, 10] @ ascii ''C'')
   \<and> similarity_search (sample_env \<lparr> similarity_search := (\<lambda>query k. Inr []) \<rparr>)
        (ascii ''where?'') 5 = Inr []
   \<and> fst (retrieve_context (sample_env \<lparr> similarity_search := (\<lambda>query k. Inr []) \<rparr>)
        (ascii ''where?'') 5) = Inr []
   \<and> rag_node sample_runtime sample_env (Map.empty (Question \<mapsto> ascii ''where?''))
     = (Inr [(Context, ascii ''Paris is the capital of France.''), (Route, ascii ''pdf'')],
        [SearchCall (ascii ''where?'') 5])"
proof -
  let ?E3 = "sample_env \<lparr> similarity_search := (\<lambda>query k.
        Inr [\<lparr> page_content = ascii ''A B'' \<rparr>, \<lparr> page_content = ascii ''A B'' \<rparr>,
             \<lparr> page_content = ascii ''C'' \<rparr>]) \<rparr>"
  let ?E0 = "sample_env \<lparr> similarity_search := (\<lambda>query k. Inr []) \<rparr>"
  have s0: "similarity_search ?E0 (ascii ''where?'') 5 = Inr []" by simp
  have q: "(Map.empty (Question \<mapsto> ascii ''where?'')) Question = Some (ascii ''where?'')" by simp
  from retrieve_context_joins [of ?E3 "ascii ''where?''" 5]
  have r3: "fst (retrieve_context ?E3 (ascii ''where?'') 5)
     = Inr (ascii ''A B'' @ [10, 10] @ ascii ''A B'' @ [10, 10] @ ascii ''C'')"
    by simp
  from retrieve_context_joins [of ?E0 "ascii ''where?''" 5] s0
  have r0: "fst (retrieve_context ?E0 (ascii ''where?'') 5) = Inr []"
    by blast
  from retrieve_context_joins [of sample_env "ascii ''where?''" 5
      "Map.empty (Question \<mapsto> ascii ''where?'')" sample_runtime] q
  have r5: "rag_node sample_runtime sample_env (Map.empty (Question \<mapsto> ascii ''where?''))
     = (Inr [(Context, ascii ''Paris is the capital of France.''), (Route, ascii ''pdf'')],
        [SearchCall (ascii ''where?'') 5])"
    by (simp add: sample_env_def)
  from r3 s0 r0 r5 show ?thesis by blast
qed

section \<open>The geocoding response\<close>

text \<open>
  C5 (as amended). Let the geocoder return \<open>data\<close>, a value that is falsy or has a length
  (\<open>None\<close>, a string, a list, a tuple, a dict, zero or \<open>False\<close>). \<open>fetch_weather_for_city\<close>
  raises a ValueError before any conditions fetch exactly when \<open>data\<close> is falsy, or is
  neither a tuple of length 2 nor a list whose first element is a dict. For a tuple of
  length 2 and for a list whose first element is a dict it goes on to the conditions fetch;
  the coordinates are the two components of the tuple, or what \<open>.get\<close> gives for \<open>lat\<close> and
  \<open>lon\<close> in the dict, which is \<open>None\<close> for a key the dict does not have.
\<close>

theorem fetch_weather_for_city_geocode_shapes:
  assumes "extract_city_name (unicode R) q d = Inr city"
    and "geocode_city E city h = Inr data"
    and "\<not> truthy R data \<or> sized data"
  shows "(\<not> truthy R data \<or> \<not> (is_pair data \<or> is_dict_list data) \<longrightarrow>
           (\<exists>m. fetch_weather_for_city R E q d h
                  = (Inl (Exn ValueError m), [GeocodeCall city h])))
       \<and> (truthy R data \<and> (is_pair data \<or> is_dict_list data) \<longrightarrow>
           (\<exists>lat lon. coordinates R data = Inr (lat, lon)
              \<and> fetch_weather_for_city R E q d h
                  = (bind_exn (fetch_weather_onecall E lat lon) (\<lambda>w. summarise_onecall R w city),
                     [GeocodeCall city h, OneCallCall lat lon])))
       \<and> (\<forall>lat lon. data = PTuple [lat, lon] \<longrightarrow> coordinates R data = Inr (lat, lon))
       \<and> (\<forall>kvs rest. data = PList (PDict kvs # rest) \<longrightarrow>
            coordinates R data = Inr (dict_get kvs (ascii ''lat''), dict_get kvs (ascii ''lon'')))"
proof -
  have falsy: "\<not> truthy R data \<Longrightarrow>
      \<exists>m. fetch_weather_for_city R E q d h = (Inl (Exn ValueError m), [GeocodeCall city h])"
    using assms(1,2)
    by (simp add: fetch_weather_for_city_def io_call_def check_geocoded_falsy)
  have noshape: "truthy R data \<Longrightarrow> \<not> (is_pair data \<or> is_dict_list data) \<Longrightarrow>
      \<exists>m. fetch_weather_for_city R E q d h = (Inl (Exn ValueError m), [GeocodeCall city h])"
  proof -
    assume t: "truthy R data" and n: "\<not> (is_pair data \<or> is_dict_list data)"
    from t assms(3) have s: "sized data" by blast
    from t have c: "check_geocoded R data city h = Inr ()"
      by (simp add: check_geocoded_sized [OF s])
    show ?thesis
      using assms(1,2) c coordinates_rejects [OF n, of R]
      by (simp add: fetch_weather_for_city_def io_call_def)
  qed
  have shape: "is_pair data \<or> is_dict_list data \<Longrightarrow>
      \<exists>lat lon. coordinates R data = Inr (lat, lon)
        \<and> fetch_weather_for_city R E q d h
            = (bind_exn (fetch_weather_onecall E lat lon) (\<lambda>w. summarise_onecall R w city),
               [GeocodeCall city h, OneCallCall lat lon])"
  proof -
    assume sh: "is_pair data \<or> is_dict_list data"
    from shape_truthy [OF sh, of R] have c: "check_geocoded R data city h = Inr ()"
      by (simp add: check_geocoded_sized)
    from sh obtain lat lon where co: "coordinates R data = Inr (lat, lon)"
      by (auto simp: is_pair_iff is_dict_list_iff coordinates_def)
    have "fetch_weather_for_city R E q d h
        = (bind_exn (fetch_weather_onecall E lat lon) (\<lambda>w. summarise_onecall R w city),
           [GeocodeCall city h, OneCallCall lat lon])"
      using assms(1,2) c co
      by (cases "fetch_weather_onecall E lat lon")
        (simp_all add: fetch_weather_for_city_def io_call_def io_pure_def)
    with co show ?thesis by blast
  qed
  have tup: "\<forall>lat lon. data = PTuple [lat, lon] \<longrightarrow> coordinates R data = Inr (lat, lon)"
    by (simp add: coordinates_def)
  have lst: "\<forall>kvs rest. data = PList (PDict kvs # rest) \<longrightarrow>
      coordinates R data = Inr (dict_get kvs (ascii ''lat''), dict_get kvs (ascii ''lon''))"
    by (simp add: coordinates_def)
  from falsy noshape shape tup lst show ?thesis by blast
qed

text \<open>The stubbed tuple of the tests and a list with coordinates go on to the conditions
  fetch; an empty list and the provider's error object are ValueErrors.\<close>

theorem fetch_weather_for_city_geocode_shapes_witness:
  "fetch_weather_for_city sample_runtime sample_env (ascii ''what is the weather in hyderabad?'')
       (ascii ''Hyderabad'') (ascii ''IN'')
     = (Inr (ascii ''Current weather in Hyderabad: 25.0'' @ [176] @ ascii ''C (feels like 26.0''
            @ [176] @ ascii ''C), humidity 70%, Clear sky, wind 4 m/s.''),
        [GeocodeCall (ascii ''Hyderabad'') (ascii ''IN''), OneCallCall (PNum 17) (PNum 78)])
   \<and> snd (fetch_weather_for_city sample_runtime
       (sample_env \<lparr> geocode_city := (\<lambda>city hint.
          Inr (PList [PDict [(ascii ''lat'', PNum 48), (ascii ''lon'', PNum 2)]])) \<rparr>)
       (ascii ''weather in Paris'') (ascii ''Hyderabad'') (ascii ''IN''))
     = [GeocodeCall (ascii ''Paris'') (ascii ''IN''), OneCallCall (PNum 48) (PNum 2)]
   \<and> fetch_weather_for_city sample_runtime
       (sample_env \<lparr> geocode_city := (\<lambda>city hint. Inr (PList [])) \<rparr>)
       (ascii ''weather in Paris'') (ascii ''Hyderabad'') (ascii ''IN'')
     = (Inl (Exn ValueError (ascii ''Could not geocode city: Paris,IN'')),
        [GeocodeCall (ascii ''Paris'') (ascii ''IN'')])
   \<and> fetch_weather_for_city sample_runtime
       (sample_env \<lparr> geocode_city := (\<lambda>city hint. Inr (PDict [(ascii ''cod'', PNum 401)])) \<rparr>)
       (ascii ''weather in Paris'') (ascii ''Hyderabad'') (ascii ''IN'')
     = (Inl (Exn ValueError (ascii ''Unexpected geocode response format: ...'')),
        [GeocodeCall (ascii ''Paris'') (ascii ''IN'')])"
proof -
  let ?Ed = "sample_env \<lparr> geocode_city := (\<lambda>city hint.
          Inr (PList [PDict [(ascii ''lat'', PNum 48), (ascii ''lon'', PNum 2)]])) \<rparr>"
  let ?E0 = "sample_env \<lparr> geocode_city := (\<lambda>city hint. Inr (PList [])) \<rparr>"
  let ?Ee = "sample_env \<lparr> geocode_city := (\<lambda>city hint. Inr (PDict [(ascii ''cod'', PNum 401)])) \<rparr>"
  have c1: "extract_city_name (unicode sample_runtime) (ascii ''what is the weather in hyderabad?'')
      (ascii ''Hyderabad'') = Inr (ascii ''Hyderabad'')"
    by (simp add: sample_runtime_def extract_eval)
  have c2: "extract_city_name (unicode sample_runtime) (ascii ''weather in Paris'')
      (ascii ''Hyderabad'') = Inr (ascii ''Paris'')"
    by (simp add: sample_runtime_def extract_eval)
  have g1: "geocode_city sample_env (ascii ''Hyderabad'') (ascii ''IN'')
      = Inr (PTuple [PNum 17, PNum 78])"
    by (simp add: sample_env_def)
  have w1: "fetch_weather_onecall sample_env (PNum 17) (PNum 78) = Inr mock_weather_json"
    by (simp add: sample_env_def)
  have s1: "summarise_onecall sample_runtime mock_weather_json (ascii ''Hyderabad'')
     = Inr (ascii ''Current weather in Hyderabad: 25.0'' @ [176] @ ascii ''C (feels like 26.0''
            @ [176] @ ascii ''C), humidity 70%, Clear sky, wind 4 m/s.'')"
    by (simp add: summarise_eval)
  have r1: "fetch_weather_for_city sample_runtime sample_env
       (ascii ''what is the weather in hyderabad?'') (ascii ''Hyderabad'') (ascii ''IN'')
     = (Inr (ascii ''Current weather in Hyderabad: 25.0'' @ [176] @ ascii ''C (feels like 26.0''
            @ [176] @ ascii ''C), humidity 70%, Clear sky, wind 4 m/s.''),
        [GeocodeCall (ascii ''Hyderabad'') (ascii ''IN''), OneCallCall (PNum 17) (PNum 78)])"
    using fetch_weather_for_city_geocode_shapes [OF c1 g1] w1 s1
    by (simp add: coordinates_def sample_runtime_def)
  have r2: "snd (fetch_weather_for_city sample_runtime ?Ed
       (ascii ''weather in Paris'') (ascii ''Hyderabad'') (ascii ''IN''))
     = [GeocodeCall (ascii ''Paris'') (ascii ''IN''), OneCallCall (PNum 48) (PNum 2)]"
    using fetch_weather_for_city_geocode_shapes
      [OF c2, of ?Ed "ascii ''IN''" "PList [PDict [(ascii ''lat'', PNum 48), (ascii ''lon'', PNum 2)]]"]
    by (simp add: coordinates_def dict_get_def ascii_def)
  have r3: "fetch_weather_for_city sample_runtime ?E0
       (ascii ''weather in Paris'') (ascii ''Hyderabad'') (ascii ''IN'')
     = (Inl (Exn ValueError (ascii ''Could not geocode city: Paris,IN'')),
        [GeocodeCall (ascii ''Paris'') (ascii ''IN'')])"
    using fetch_weather_for_city_geocode_shapes [OF c2, of ?E0 "ascii ''IN''" "PList []"] c2
    by (simp add: fetch_weather_for_city_def io_call_def check_geocoded_def ascii_def)
  have r4: "fetch_weather_for_city sample_runtime ?Ee
       (ascii ''weather in Paris'') (ascii ''Hyderabad'') (ascii ''IN'')
     = (Inl (Exn ValueError (ascii ''Unexpected geocode response format: ...'')),
        [GeocodeCall (ascii ''Paris'') (ascii ''IN'')])"
    using fetch_weather_for_city_geocode_shapes
      [OF c2, of ?Ee "ascii ''IN''" "PDict [(ascii ''cod'', PNum 401)]"] c2
    by (simp add: fetch_weather_for_city_def io_call_def check_geocoded_def coordinates_def
        sample_runtime_def ascii_def)
  from r1 r2 r3 r4 show ?thesis by blast
qed

text \<open>
  C5 as stated fails at the response \<open>[{"name": "Paris"}]\<close>: the list is not empty, it is no
  pair, and its first element exposes neither \<open>lat\<close> nor \<open>lon\<close>, so the claim has a ValueError
  raised; the code takes \<open>None\<close> for both coordinates and goes on to the conditions fetch.
\<close>

theorem fetch_weather_for_city_accepts_dict_without_coordinates:
  "truthy sample_runtime (PList [PDict [(ascii ''name'', PStr (ascii ''Paris''))]])
   \<and> \<not> is_pair (PList [PDict [(ascii ''name'', PStr (ascii ''Paris''))]] :: nat pyval)
   \<and> \<not> spec_exposes_lat_lon (PList [PDict [(ascii ''name'', PStr (ascii ''Paris''))]] :: nat pyval)
   \<and> fetch_weather_for_city sample_runtime
       (sample_env \<lparr> geocode_city := (\<lambda>city hint.
          Inr (PList [PDict [(ascii ''name'', PStr (ascii ''Paris''))]])) \<rparr>)
       (ascii ''weather in Paris'') (ascii ''Hyderabad'') (ascii ''IN'')
     = (Inr (ascii ''Current weather in Paris: 25.0'' @ [176] @ ascii ''C (feels like 26.0''
            @ [176] @ ascii ''C), humidity 70%, Clear sky, wind 4 m/s.''),
        [GeocodeCall (ascii ''Paris'') (ascii ''IN''), OneCallCall PNone PNone])"
proof -
  have c2: "extract_city_name (unicode sample_runtime) (ascii ''weather in Paris'')
      (ascii ''Hyderabad'') = Inr (ascii ''Paris'')"
    by (simp add: sample_runtime_def extract_eval)
  have s: "summarise_onecall sample_runtime mock_weather_json (ascii ''Paris'')
     = Inr (ascii ''Current weather in Paris: 25.0'' @ [176] @ ascii ''C (feels like 26.0''
            @ [176] @ ascii ''C), humidity 70%, Clear sky, wind 4 m/s.'')"
    by (simp add: summarise_eval)
  have n: "\<not> spec_exposes_lat_lon (PList [PDict [(ascii ''name'', PStr (ascii ''Paris''))]] :: nat pyval)"
    by (simp add: ascii_def)
  have f: "fetch_weather_for_city sample_runtime
       (sample_env \<lparr> geocode_city := (\<lambda>city hint.
          Inr (PList [PDict [(ascii ''name'', PStr (ascii ''Paris''))]])) \<rparr>)
       (ascii ''weather in Paris'') (ascii ''Hyderabad'') (ascii ''IN'')
     = (Inr (ascii ''Current weather in Paris: 25.0'' @ [176] @ ascii ''C (feels like 26.0''
            @ [176] @ ascii ''C), humidity 70%, Clear sky, wind 4 m/s.''),
        [GeocodeCall (ascii ''Paris'') (ascii ''IN''), OneCallCall PNone PNone])"
    using c2 s
    by (simp add: fetch_weather_for_city_def io_call_def io_pure_def check_geocoded_def
        coordinates_def dict_get_def sample_env_def ascii_def)
  from n f show ?thesis by simp
qed

section \<open>The nodes of the graph\<close>

lemma route_of_reply_cases:
  "route_of_reply R reply = ascii ''weather'' \<or> route_of_reply R reply = ascii ''pdf''"
  by (simp add: route_of_reply_def Let_def)

lemma weather_neq_pdf: "ascii ''weather'' \<noteq> ascii ''pdf''"
  by (simp add: ascii_def)

lemma decision_node_run:
  assumes "state Question = Some q"
  shows "decision_node R E state =
    (case llm_invoke E [SystemMessage classifier_prompt, HumanMessage q] of
       Inl e \<Rightarrow> (Inl e, [LLMCall [SystemMessage classifier_prompt, HumanMessage q]])
     | Inr reply \<Rightarrow> (Inr [(Route, route_of_reply R reply)],
                     [LLMCall [SystemMessage classifier_prompt, HumanMessage q]]))"
  using assms by (simp add: decision_node_def io_call_def io_pure_def split: sum.splits)

lemma answer_node_run:
  assumes "state Question = Some q"
  shows "answer_node R E state =
    (let ctx = or_empty (state Context);
         prompt = (if py_strip (unicode R) ctx \<noteq> [] then context_prompt ctx else plain_prompt)
     in case llm_invoke E [SystemMessage prompt, HumanMessage q] of
          Inl e \<Rightarrow> (Inl e, [LLMCall [SystemMessage prompt, HumanMessage q]])
        | Inr reply \<Rightarrow> (Inr [(Answer, py_strip (unicode R) (or_empty reply))],
                        [LLMCall [SystemMessage prompt, HumanMessage q]]))"
  using assms by (simp add: answer_node_def io_call_def io_pure_def Let_def split: sum.splits)

lemma fetch_no_writes: "writes (snd (fetch_weather_for_city R E q d h)) = []"
  unfolding fetch_weather_for_city_def
  by (auto simp: io_bind_def io_call_def io_pure_def split: sum.splits prod.splits)

lemma weather_node_run:
  assumes "state Question = Some q"
  shows "weather_node R E state =
    (case fetch_weather_for_city R E q (ascii ''Hyderabad'') (ascii ''IN'') of
       (Inr summary, evs) \<Rightarrow> (Inr [(Context, summary), (Route, ascii ''weather'')], evs)
     | (Inl ex, evs) \<Rightarrow>
         (Inr [(Context, fetch_apology @ exn_str ex), (Route, ascii ''weather'')], evs))"
  using assms by (simp add: weather_node_def)

lemma weather_node_shape:
  assumes "state Question = Some q"
  shows "\<exists>c evs. weather_node R E state = (Inr [(Context, c), (Route, ascii ''weather'')], evs)
            \<and> writes evs = []"
proof -
  obtain r evs where f: "fetch_weather_for_city R E q (ascii ''Hyderabad'') (ascii ''IN'') = (r, evs)"
    by (cases "fetch_weather_for_city R E q (ascii ''Hyderabad'') (ascii ''IN'')")
  have w: "writes evs = []"
    using fetch_no_writes [of R E q "ascii ''Hyderabad''" "ascii ''IN''"] f by simp
  show ?thesis using f w assms by (cases r) (simp_all add: weather_node_def)
qed

lemma rag_node_run:
  assumes "state Question = Some q"
  shows "rag_node R E state =
          (case similarity_search E q 5 of
             Inl e \<Rightarrow> (Inl e, [SearchCall q 5])
           | Inr docs \<Rightarrow>
               (Inr [(Context, py_join [10, 10] (map page_content docs)), (Route, ascii ''pdf'')],
                [SearchCall q 5]))"
  using assms
  by (auto simp: retrieve_context_def rag_node_def io_call_def io_pure_def
      collect_contents_eq or_empty_def split: sum.splits)

lemma strip_nonspace_head: "\<not> py_isspace U c \<Longrightarrow> py_strip U (c # s) \<noteq> []"
proof -
  assume n: "\<not> py_isspace U c"
  then have "dropWhile (py_isspace U) (c # s) = c # s" by simp
  moreover have "dropWhile (py_isspace U) (rev s @ [c]) \<noteq> []"
    using n by (auto simp: dropWhile_eq_Nil_conv)
  ultimately show ?thesis by (simp add: py_strip_def)
qed

lemma strip_fetch_apology: "py_strip U (fetch_apology @ m) \<noteq> []"
proof -
  obtain t where t: "fetch_apology = 83 # t"
    by (simp add: fetch_apology_def ascii_def)
  have "\<not> py_isspace U 83" by (simp add: py_isspace_def)
  from strip_nonspace_head [OF this, of "t @ m"] show ?thesis by (simp add: t)
qed

text \<open>
  C1. When the language model answers the decision step with \<open>reply\<close> (a string or
  \<open>None\<close>), the decision node writes exactly the key Route. The route is \<open>weather\<close> if the
  reply, stripped and lowercased (\<open>None\<close> counting as the empty string), contains \<open>weather\<close>,
  and \<open>pdf\<close> for every other reply, the empty one and \<open>None\<close> among them; it is never
  anything but one of the two labels.
\<close>

theorem decision_node_route:
  assumes "state Question = Some q"
    and "llm_invoke E [SystemMessage classifier_prompt, HumanMessage q] = Inr reply"
  shows "fst (decision_node R E state) = Inr [(Route, route_of_reply R reply)]
       \<and> ((\<exists>a b. py_lower (unicode R) (py_strip (unicode R) (or_empty reply))
                   = a @ ascii ''weather'' @ b) \<longrightarrow>
            route_of_reply R reply = ascii ''weather'')
       \<and> (\<not> (\<exists>a b. py_lower (unicode R) (py_strip (unicode R) (or_empty reply))
                   = a @ ascii ''weather'' @ b) \<longrightarrow>
            route_of_reply R reply = ascii ''pdf'')
       \<and> route_of_reply R None = ascii ''pdf''
       \<and> route_of_reply R (Some []) = ascii ''pdf''
       \<and> route_of_reply R reply \<in> {ascii ''weather'', ascii ''pdf''}"
proof -
  have a: "fst (decision_node R E state) = Inr [(Route, route_of_reply R reply)]"
    using assms by (simp add: decision_node_run)
  have b: "(\<exists>a b. py_lower (unicode R) (py_strip (unicode R) (or_empty reply))
                   = a @ ascii ''weather'' @ b) \<longrightarrow>
            route_of_reply R reply = ascii ''weather''"
    by (simp add: route_of_reply_def Let_def py_in_iff)
  have c: "\<not> (\<exists>a b. py_lower (unicode R) (py_strip (unicode R) (or_empty reply))
                   = a @ ascii ''weather'' @ b) \<longrightarrow>
            route_of_reply R reply = ascii ''pdf''"
    by (simp add: route_of_reply_def Let_def py_in_iff)
  have d: "route_of_reply R None = ascii ''pdf''"
    by (simp add: route_of_reply_def or_empty_def py_strip_def py_lower_def ascii_def)
  have e: "route_of_reply R (Some []) = ascii ''pdf''"
    by (simp add: route_of_reply_def or_empty_def py_strip_def py_lower_def ascii_def)
  have f: "route_of_reply R reply \<in> {ascii ''weather'', ascii ''pdf''}"
    using route_of_reply_cases [of R reply] by blast
  from a b c d e f show ?thesis by blast
qed

text \<open>A reply with capitals, blanks and a full stop around the word is routed to weather;
  a sentence without the word, to pdf.\<close>

theorem decision_node_route_witness:
  "fst (decision_node sample_runtime
         (sample_env \<lparr> llm_invoke := (\<lambda>messages. Inr (Some (ascii '' Weather. ''))) \<rparr>)
         (Map.empty (Question \<mapsto> ascii ''Will it rain?'')))
     = Inr [(Route, ascii ''weather'')]
   \<and> py_lower unicode_excerpt (py_strip unicode_excerpt (ascii '' Weather. ''))
     = [] @ ascii ''weather'' @ ascii ''.''
   \<and> fst (decision_node sample_runtime sample_env
         (Map.empty (Question \<mapsto> ascii ''What is the capital of France?'')))
     = Inr [(Route, ascii ''pdf'')]
   \<and> \<not> py_in (ascii ''weather'')
        (py_lower unicode_excerpt (py_strip unicode_excerpt (ascii ''Paris is the capital of France.'')))"
proof -
  let ?E = "sample_env \<lparr> llm_invoke := (\<lambda>messages. Inr (Some (ascii '' Weather. ''))) \<rparr>"
  let ?s1 = "Map.empty (Question \<mapsto> ascii ''Will it rain?'')"
  let ?s2 = "Map.empty (Question \<mapsto> ascii ''What is the capital of France?'')"
  have l: "py_lower unicode_excerpt (py_strip unicode_excerpt (ascii '' Weather. ''))
     = [] @ ascii ''weather'' @ ascii ''.''"
    by (simp add: extract_eval)
  have q1: "?s1 Question = Some (ascii ''Will it rain?'')" by simp
  have q2: "?s2 Question = Some (ascii ''What is the capital of France?'')" by simp
  have m1: "llm_invoke ?E [SystemMessage classifier_prompt, HumanMessage (ascii ''Will it rain?'')]
      = Inr (Some (ascii '' Weather. ''))"
    by simp
  have m2: "llm_invoke sample_env
      [SystemMessage classifier_prompt, HumanMessage (ascii ''What is the capital of France?'')]
      = Inr (Some (ascii ''Paris is the capital of France.''))"
    by (simp add: sample_env_def fake_model_def extract_eval)
  have n: "\<not> py_in (ascii ''weather'')
        (py_lower unicode_excerpt (py_strip unicode_excerpt (ascii ''Paris is the capital of France.'')))"
    by (simp add: extract_eval)
  from l have ex: "\<exists>a b. py_lower (unicode sample_runtime)
      (py_strip (unicode sample_runtime) (or_empty (Some (ascii '' Weather. ''))))
      = a @ ascii ''weather'' @ b"
    unfolding or_empty_def sample_runtime_def by (simp del: append_Nil) blast
  from decision_node_route [where state = ?s1 and q = "ascii ''Will it rain?''" and E = ?E
      and reply = "Some (ascii '' Weather. '')" and R = sample_runtime] q1 m1 ex
  have r1: "fst (decision_node sample_runtime ?E ?s1) = Inr [(Route, ascii ''weather'')]"
    by simp
  from n have nex: "\<not> (\<exists>a b. py_lower (unicode sample_runtime)
      (py_strip (unicode sample_runtime) (or_empty (Some (ascii ''Paris is the capital of France.''))))
      = a @ ascii ''weather'' @ b)"
    by (simp add: py_in_iff or_empty_def sample_runtime_def)
  from decision_node_route [where state = ?s2 and q = "ascii ''What is the capital of France?''"
      and E = sample_env and reply = "Some (ascii ''Paris is the capital of France.'')"
      and R = sample_runtime] q2 m2 nex
  have r2: "fst (decision_node sample_runtime sample_env ?s2) = Inr [(Route, ascii ''pdf'')]"
    by simp
  from r1 l r2 n show ?thesis by blast
qed

subsection \<open>Steps of a run\<close>

lemma apply_update_simps [simp]:
  "apply_update st [] = st"
  "apply_update st ((k, v) # u) = apply_update (st(k \<mapsto> v)) u"
  by (simp_all add: apply_update_def)

lemma writes_of_simps [simp]:
  "writes_of nd [] = []"
  "writes_of nd ((k, v) # u) = StateWrite nd k v # writes_of nd u"
  by (simp_all add: writes_of_def)

lemma run_from_answer:
  "run_from (Suc n) R E NAnswer st =
    (case answer_node R E st of
       (Inl e, evs) \<Rightarrow> (Inl e, evs)
     | (Inr u, evs) \<Rightarrow> (Inr (apply_update st u), evs @ writes_of NAnswer u))"
  by (cases "answer_node R E st" rule: prod.exhaust [case_names Pair])
    (auto simp: run_node_def io_pure_def split: sum.splits)

lemma run_from_branch:
  assumes "nd = NWeather \<or> nd = NRag"
  shows "run_from (Suc n) R E nd st =
    (case node_fn nd R E st of
       (Inl e, evs) \<Rightarrow> (Inl e, evs)
     | (Inr u, evs) \<Rightarrow>
         (fst (run_from n R E NAnswer (apply_update st u)),
          evs @ writes_of nd u @ snd (run_from n R E NAnswer (apply_update st u))))"
  using assms
  by (cases "node_fn nd R E st" rule: prod.exhaust [case_names Pair])
    (auto simp: run_node_def io_pure_def split: sum.splits)

lemma run_from_decision:
  assumes "st Question = Some q"
  shows "run_from (Suc n) R E NDecision st =
    (case llm_invoke E [SystemMessage classifier_prompt, HumanMessage q] of
       Inl e \<Rightarrow> (Inl e, [LLMCall [SystemMessage classifier_prompt, HumanMessage q]])
     | Inr reply \<Rightarrow>
         (let r = route_of_reply R reply;
              nd = (if r = ascii ''weather'' then NWeather else NRag);
              st' = st(Route \<mapsto> r)
          in (fst (run_from n R E nd st'),
              [LLMCall [SystemMessage classifier_prompt, HumanMessage q],
               StateWrite NDecision Route r] @ snd (run_from n R E nd st'))))"
proof (cases "llm_invoke E [SystemMessage classifier_prompt, HumanMessage q]")
  case (Inl e)
  then show ?thesis
    using assms by (simp add: run_node_def decision_node_run)
next
  case (Inr reply)
  have p: "path_map (route_of_reply R reply)
      = Inr (if route_of_reply R reply = ascii ''weather'' then NWeather else NRag)"
    using route_of_reply_cases [of R reply] by (auto simp: path_map_def)
  show ?thesis
    using assms Inr p
    by (simp add: run_node_def decision_node_run route_edge_def io_pure_def Let_def)
qed

lemma pipeline_invoke_question:
  "pipeline_invoke R E [(Question, q)] =
     (fst (run_from recursion_limit R E NDecision (Map.empty (Question \<mapsto> q))),
      StateWrite NStart Question q
        # snd (run_from recursion_limit R E NDecision (Map.empty (Question \<mapsto> q))))"
  by (simp add: pipeline_invoke_def)

lemma recursion_limit_Suc: "recursion_limit = Suc (Suc (Suc 22))"
  by (simp add: recursion_limit_def)

section \<open>The answer step\<close>

text \<open>
  C8. With \<open>ctx\<close> the Context of the state (the empty string when there is none), the
  answer node makes exactly one call of the language model, with a system instruction and
  the raw question. If \<open>ctx\<close> is not empty after stripping, the instruction is the context
  prompt, which holds \<open>ctx\<close> verbatim and the words that forbid the reply \<open>I don't know\<close>;
  otherwise it is the plain prompt, which asks for an answer to the best of the model's
  ability. The node writes as Answer the reply of that call, stripped (an error of the call
  is raised on).
\<close>

theorem answer_node_prompt_and_call:
  assumes "state Question = Some q"
  shows "(py_strip (unicode R) (or_empty (state Context)) \<noteq> [] \<longrightarrow>
            snd (answer_node R E state)
              = [LLMCall [SystemMessage (context_prompt (or_empty (state Context))),
                          HumanMessage q]])
       \<and> (py_strip (unicode R) (or_empty (state Context)) = [] \<longrightarrow>
            snd (answer_node R E state) = [LLMCall [SystemMessage plain_prompt, HumanMessage q]])
       \<and> (\<exists>a b. context_prompt (or_empty (state Context)) = a @ or_empty (state Context) @ b)
       \<and> py_in (ascii ''DO NOT reply with '' @ [39] @ ascii ''I don'' @ [39] @ ascii ''t know''
                 @ [39])
           (context_prompt (or_empty (state Context)))
       \<and> plain_prompt
           = ascii ''You are a helpful assistant. Answer the question to the best of your ability.''
       \<and> (\<forall>msgs reply. snd (answer_node R E state) = [LLMCall msgs]
              \<and> llm_invoke E msgs = Inr reply \<longrightarrow>
            fst (answer_node R E state) = Inr [(Answer, py_strip (unicode R) (or_empty reply))])
       \<and> (\<forall>msgs e. snd (answer_node R E state) = [LLMCall msgs] \<and> llm_invoke E msgs = Inl e \<longrightarrow>
            fst (answer_node R E state) = Inl e)"
proof -
  let ?ctx = "or_empty (state Context)"
  note run = answer_node_run [where state = state and q = q and R = R and E = E]
  have a: "py_strip (unicode R) ?ctx \<noteq> [] \<longrightarrow>
      snd (answer_node R E state) = [LLMCall [SystemMessage (context_prompt ?ctx), HumanMessage q]]"
    using assms by (simp add: run Let_def split: sum.splits)
  have b: "py_strip (unicode R) ?ctx = [] \<longrightarrow>
      snd (answer_node R E state) = [LLMCall [SystemMessage plain_prompt, HumanMessage q]]"
    using assms by (simp add: run Let_def split: sum.splits)
  have c: "\<exists>a b. context_prompt ?ctx = a @ ?ctx @ b"
  proof -
    have "context_prompt ?ctx =
        (ascii ''You are a helpful assistant. ''
         @ ascii ''The following context contains the exact answer to the user'' @ [39]
         @ ascii ''s question. ''
         @ ascii ''Use the context directly and DO NOT reply with '' @ [39] @ ascii ''I don'' @ [39]
         @ ascii ''t know'' @ [39] @ ascii ''. ''
         @ ascii ''Respond concisely.'' @ [10, 10]
         @ ascii ''Context:'' @ [10]) @ ?ctx @ [10, 10]"
      by (simp add: context_prompt_def)
    then show ?thesis by blast
  qed
  have d: "py_in (ascii ''DO NOT reply with '' @ [39] @ ascii ''I don'' @ [39] @ ascii ''t know''
                 @ [39])
           (context_prompt ?ctx)"
  proof -
    have "context_prompt ?ctx =
        (ascii ''You are a helpful assistant. ''
         @ ascii ''The following context contains the exact answer to the user'' @ [39]
         @ ascii ''s question. ''
         @ ascii ''Use the context directly and '')
        @ (ascii ''DO NOT reply with '' @ [39] @ ascii ''I don'' @ [39] @ ascii ''t know'' @ [39])
        @ (ascii ''. '' @ ascii ''Respond concisely.'' @ [10, 10]
           @ ascii ''Context:'' @ [10] @ ?ctx @ [10, 10])"
      by (simp add: context_prompt_def ascii_def)
    then show ?thesis unfolding py_in_iff by blast
  qed
  have e: "plain_prompt
      = ascii ''You are a helpful assistant. Answer the question to the best of your ability.''"
    by (simp add: plain_prompt_def)
  have f: "\<forall>msgs reply. snd (answer_node R E state) = [LLMCall msgs]
              \<and> llm_invoke E msgs = Inr reply \<longrightarrow>
            fst (answer_node R E state) = Inr [(Answer, py_strip (unicode R) (or_empty reply))]"
    using assms by (auto simp: run Let_def split: sum.splits if_splits)
  have g: "\<forall>msgs e. snd (answer_node R E state) = [LLMCall msgs] \<and> llm_invoke E msgs = Inl e \<longrightarrow>
            fst (answer_node R E state) = Inl e"
    using assms by (auto simp: run Let_def split: sum.splits if_splits)
  from a b c d e f g show ?thesis by blast
qed

text \<open>A state with a context: the context prompt, and the stripped reply as Answer. A state
  whose context is blank: the plain prompt.\<close>

theorem answer_node_prompt_and_call_witness:
  "answer_node sample_runtime
       (sample_env \<lparr> llm_invoke := (\<lambda>messages. Inr (Some (ascii '' It is sunny. ''))) \<rparr>)
       (Map.empty (Question \<mapsto> ascii ''How is it outside?'', Context \<mapsto> ascii ''Sunny, 25 C''))
     = (Inr [(Answer, ascii ''It is sunny.'')],
        [LLMCall [SystemMessage (context_prompt (ascii ''Sunny, 25 C'')),
                  HumanMessage (ascii ''How is it outside?'')]])
   \<and> answer_node sample_runtime
       (sample_env \<lparr> llm_invoke := (\<lambda>messages. Inr (Some (ascii '' It is sunny. ''))) \<rparr>)
       (Map.empty (Question \<mapsto> ascii ''How is it outside?'', Context \<mapsto> ascii ''  ''))
     = (Inr [(Answer, ascii ''It is sunny.'')],
        [LLMCall [SystemMessage plain_prompt, HumanMessage (ascii ''How is it outside?'')]])"
proof -
  let ?E = "sample_env \<lparr> llm_invoke := (\<lambda>messages. Inr (Some (ascii '' It is sunny. ''))) \<rparr>"
  let ?s1 = "Map.empty (Question \<mapsto> ascii ''How is it outside?'', Context \<mapsto> ascii ''Sunny, 25 C'')"
  let ?s2 = "Map.empty (Question \<mapsto> ascii ''How is it outside?'', Context \<mapsto> ascii ''  '')"
  have q1: "?s1 Question = Some (ascii ''How is it outside?'')" by simp
  have q2: "?s2 Question = Some (ascii ''How is it outside?'')" by simp
  have c1: "py_strip (unicode sample_runtime) (or_empty (?s1 Context)) \<noteq> []"
    by (simp add: or_empty_def sample_runtime_def extract_eval)
  have c2: "py_strip (unicode sample_runtime) (or_empty (?s2 Context)) = []"
    by (simp add: or_empty_def sample_runtime_def extract_eval)
  have o1: "or_empty (?s1 Context) = ascii ''Sunny, 25 C''" by (simp add: or_empty_def)
  have r: "py_strip (unicode sample_runtime) (or_empty (Some (ascii '' It is sunny. '')))
      = ascii ''It is sunny.''"
    by (simp add: or_empty_def sample_runtime_def extract_eval)
  have m: "\<And>msgs. llm_invoke ?E msgs = Inr (Some (ascii '' It is sunny. ''))" by simp
  note t1 = answer_node_prompt_and_call
    [where state = ?s1 and q = "ascii ''How is it outside?''" and R = sample_runtime and E = ?E,
     OF q1]
  note t2 = answer_node_prompt_and_call
    [where state = ?s2 and q = "ascii ''How is it outside?''" and R = sample_runtime and E = ?E,
     OF q2]
  from t1 c1 o1 have e1: "snd (answer_node sample_runtime ?E ?s1)
      = [LLMCall [SystemMessage (context_prompt (ascii ''Sunny, 25 C'')),
                  HumanMessage (ascii ''How is it outside?'')]]"
    by simp
  from t1 e1 m r have f1: "fst (answer_node sample_runtime ?E ?s1)
      = Inr [(Answer, ascii ''It is sunny.'')]"
    by metis
  from t2 c2 have e2: "snd (answer_node sample_runtime ?E ?s2)
      = [LLMCall [SystemMessage plain_prompt, HumanMessage (ascii ''How is it outside?'')]]"
    by blast
  from t2 e2 m r have f2: "fst (answer_node sample_runtime ?E ?s2)
      = Inr [(Answer, ascii ''It is sunny.'')]"
    by metis
  from e1 f1 e2 f2 show ?thesis by (simp add: prod_eq_iff)
qed

lemma run_from_three:
  "run_from (Suc (Suc (Suc n))) R E NDecision (Map.empty (Question \<mapsto> q)) =
    (case llm_invoke E [SystemMessage classifier_prompt, HumanMessage q] of
       Inl e \<Rightarrow>
         (Inl e, [LLMCall [SystemMessage classifier_prompt, HumanMessage q]])
     | Inr reply \<Rightarrow>
         (let r = route_of_reply R reply;
              nd = (if r = ascii ''weather'' then NWeather else NRag);
              st1 = Map.empty (Question \<mapsto> q, Route \<mapsto> r);
              pre = [LLMCall [SystemMessage classifier_prompt, HumanMessage q],
                     StateWrite NDecision Route r]
          in case node_fn nd R E st1 of
               (Inl e, evs) \<Rightarrow> (Inl e, pre @ evs)
             | (Inr u, evs) \<Rightarrow>
                 (case answer_node R E (apply_update st1 u) of
                    (Inl e, evs') \<Rightarrow> (Inl e, pre @ evs @ writes_of nd u @ evs')
                  | (Inr u', evs') \<Rightarrow>
                      (Inr (apply_update (apply_update st1 u) u'),
                       pre @ evs @ writes_of nd u @ evs' @ writes_of NAnswer u'))))"
proof (cases "llm_invoke E [SystemMessage classifier_prompt, HumanMessage q]")
  case (Inl e)
  then show ?thesis
    by (simp add: run_from_decision [where q = q] del: run_from.simps)
next
  case (Inr reply)
  define r where "r = route_of_reply R reply"
  define nd where "nd = (if r = ascii ''weather'' then NWeather else NRag)"
  define st1 where "st1 = Map.empty (Question \<mapsto> q, Route \<mapsto> r)"
  have b: "nd = NWeather \<or> nd = NRag" by (simp add: nd_def)
  obtain x evs where x: "node_fn nd R E st1 = (x, evs)" by (cases "node_fn nd R E st1")
  have dec: "run_from (Suc (Suc (Suc n))) R E NDecision (Map.empty (Question \<mapsto> q)) =
      (fst (run_from (Suc (Suc n)) R E nd st1),
       [LLMCall [SystemMessage classifier_prompt, HumanMessage q],
        StateWrite NDecision Route r] @ snd (run_from (Suc (Suc n)) R E nd st1))"
    using Inr
    by (simp add: run_from_decision [where q = q] Let_def r_def nd_def st1_def
        del: run_from.simps)
  show ?thesis
  proof (cases x)
    case (Inl e)
    with x have "run_from (Suc (Suc n)) R E nd st1 = (Inl e, evs)"
      by (simp add: run_from_branch [OF b] del: run_from.simps)
    with dec Inr x Inl show ?thesis
      by (simp add: Let_def r_def [symmetric] nd_def [symmetric] st1_def [symmetric])
  next
    case u: (Inr u)
    obtain y evs' where y: "answer_node R E (apply_update st1 u) = (y, evs')"
      by (cases "answer_node R E (apply_update st1 u)")
    have br: "run_from (Suc (Suc n)) R E nd st1 =
        (fst (run_from (Suc n) R E NAnswer (apply_update st1 u)),
         evs @ writes_of nd u @ snd (run_from (Suc n) R E NAnswer (apply_update st1 u)))"
      using x u by (simp add: run_from_branch [OF b] del: run_from.simps)
    show ?thesis
    proof (cases y)
      case (Inl e)
      with y have "run_from (Suc n) R E NAnswer (apply_update st1 u) = (Inl e, evs')"
        by (simp add: run_from_answer del: run_from.simps)
      with dec br Inr x u y Inl show ?thesis
        by (simp add: Let_def r_def [symmetric] nd_def [symmetric] st1_def [symmetric])
    next
      case u': (Inr u')
      with y have "run_from (Suc n) R E NAnswer (apply_update st1 u)
          = (Inr (apply_update (apply_update st1 u) u'), evs' @ writes_of NAnswer u')"
        by (simp add: run_from_answer del: run_from.simps)
      with dec br Inr x u y u' show ?thesis
        by (simp add: Let_def r_def [symmetric] nd_def [symmetric] st1_def [symmetric])
    qed
  qed
qed

lemma pipeline_run:
  "pipeline_invoke R E [(Question, q)] =
    (case llm_invoke E [SystemMessage classifier_prompt, HumanMessage q] of
       Inl e \<Rightarrow>
         (Inl e, [StateWrite NStart Question q,
                  LLMCall [SystemMessage classifier_prompt, HumanMessage q]])
     | Inr reply \<Rightarrow>
         (let r = route_of_reply R reply;
              nd = (if r = ascii ''weather'' then NWeather else NRag);
              st1 = Map.empty (Question \<mapsto> q, Route \<mapsto> r);
              pre = [StateWrite NStart Question q,
                     LLMCall [SystemMessage classifier_prompt, HumanMessage q],
                     StateWrite NDecision Route r]
          in case node_fn nd R E st1 of
               (Inl e, evs) \<Rightarrow> (Inl e, pre @ evs)
             | (Inr u, evs) \<Rightarrow>
                 (case answer_node R E (apply_update st1 u) of
                    (Inl e, evs') \<Rightarrow> (Inl e, pre @ evs @ writes_of nd u @ evs')
                  | (Inr u', evs') \<Rightarrow>
                      (Inr (apply_update (apply_update st1 u) u'),
                       pre @ evs @ writes_of nd u @ evs' @ writes_of NAnswer u'))))"
  unfolding pipeline_invoke_question recursion_limit_Suc run_from_three
  by (simp add: Let_def split: sum.splits prod.splits)

section \<open>The weather node\<close>

lemma fetch_first_event:
  assumes "extract_city_name (unicode R) q d = Inr city"
  shows "\<exists>rest. snd (fetch_weather_for_city R E q d h) = GeocodeCall city h # rest"
  using assms
  by (cases "geocode_city E city h") (simp_all add: fetch_weather_for_city_def io_call_def)

lemma weather_node_events:
  assumes "state Question = Some q"
  shows "snd (weather_node R E state)
      = snd (fetch_weather_for_city R E q (ascii ''Hyderabad'') (ascii ''IN''))"
  using assms by (simp add: weather_node_def split: prod.splits sum.splits)

text \<open>
  C9. The weather node calls the weather path with the default city Hyderabad and the
  country hint IN: the first call of a run of the node is the geocoder's, for the extracted
  city and the hint IN. For a question that matches neither pattern, the geocoded city is
  Hyderabad, and when the geocoder's response is accepted and the conditions fetch returns,
  the Context is the summary written for Hyderabad, which starts with
  \<open>Current weather in Hyderabad:\<close> whenever the conditions parse.
\<close>

theorem weather_node_default_city:
  assumes "state Question = Some q"
  shows "(\<exists>city rest. extract_city_name (unicode R) q (ascii ''Hyderabad'') = Inr city
            \<and> snd (weather_node R E state) = GeocodeCall city (ascii ''IN'') # rest)
       \<and> (re_search (pattern1 (unicode R)) (py_lower (unicode R) q) = None
          \<and> re_search (pattern2 (unicode R)) (py_lower (unicode R) q) = None \<longrightarrow>
            (\<exists>rest. snd (weather_node R E state)
                      = GeocodeCall (ascii ''Hyderabad'') (ascii ''IN'') # rest)
          \<and> (\<forall>data lat lon w.
                geocode_city E (ascii ''Hyderabad'') (ascii ''IN'') = Inr data
                \<and> check_geocoded R data (ascii ''Hyderabad'') (ascii ''IN'') = Inr ()
                \<and> coordinates R data = Inr (lat, lon)
                \<and> fetch_weather_onecall E lat lon = Inr w \<longrightarrow>
                (\<exists>s. summarise_onecall R w (ascii ''Hyderabad'') = Inr s
                   \<and> weather_node R E state
                       = (Inr [(Context, s), (Route, ascii ''weather'')],
                          [GeocodeCall (ascii ''Hyderabad'') (ascii ''IN''), OneCallCall lat lon])
                   \<and> (\<forall>s'. summarise_try R w (ascii ''Hyderabad'') = Inr s' \<longrightarrow>
                        (\<exists>rest. s = ascii ''Current weather in Hyderabad: '' @ rest)))))"
proof -
  obtain city where city: "extract_city_name (unicode R) q (ascii ''Hyderabad'') = Inr city"
    using extract_city_name_total by blast
  note events = weather_node_events [where state = state and q = q and R = R and E = E]
  from fetch_first_event [OF city, of E "ascii ''IN''"] events assms
  have first: "\<exists>city rest. extract_city_name (unicode R) q (ascii ''Hyderabad'') = Inr city
            \<and> snd (weather_node R E state) = GeocodeCall city (ascii ''IN'') # rest"
    using city by auto
  have second: "re_search (pattern1 (unicode R)) (py_lower (unicode R) q) = None
          \<and> re_search (pattern2 (unicode R)) (py_lower (unicode R) q) = None \<longrightarrow>
            (\<exists>rest. snd (weather_node R E state)
                      = GeocodeCall (ascii ''Hyderabad'') (ascii ''IN'') # rest)
          \<and> (\<forall>data lat lon w.
                geocode_city E (ascii ''Hyderabad'') (ascii ''IN'') = Inr data
                \<and> check_geocoded R data (ascii ''Hyderabad'') (ascii ''IN'') = Inr ()
                \<and> coordinates R data = Inr (lat, lon)
                \<and> fetch_weather_onecall E lat lon = Inr w \<longrightarrow>
                (\<exists>s. summarise_onecall R w (ascii ''Hyderabad'') = Inr s
                   \<and> weather_node R E state
                       = (Inr [(Context, s), (Route, ascii ''weather'')],
                          [GeocodeCall (ascii ''Hyderabad'') (ascii ''IN''), OneCallCall lat lon])
                   \<and> (\<forall>s'. summarise_try R w (ascii ''Hyderabad'') = Inr s' \<longrightarrow>
                        (\<exists>rest. s = ascii ''Current weather in Hyderabad: '' @ rest))))"
  proof (intro impI)
    assume none: "re_search (pattern1 (unicode R)) (py_lower (unicode R) q) = None
          \<and> re_search (pattern2 (unicode R)) (py_lower (unicode R) q) = None"
    then have hyd: "extract_city_name (unicode R) q (ascii ''Hyderabad'') = Inr (ascii ''Hyderabad'')"
      by (simp add: extract_city_name_def)
    from fetch_first_event [OF hyd, of E "ascii ''IN''"] events assms
    have a: "\<exists>rest. snd (weather_node R E state)
                      = GeocodeCall (ascii ''Hyderabad'') (ascii ''IN'') # rest"
      by simp
    have b: "\<forall>data lat lon w.
                geocode_city E (ascii ''Hyderabad'') (ascii ''IN'') = Inr data
                \<and> check_geocoded R data (ascii ''Hyderabad'') (ascii ''IN'') = Inr ()
                \<and> coordinates R data = Inr (lat, lon)
                \<and> fetch_weather_onecall E lat lon = Inr w \<longrightarrow>
                (\<exists>s. summarise_onecall R w (ascii ''Hyderabad'') = Inr s
                   \<and> weather_node R E state
                       = (Inr [(Context, s), (Route, ascii ''weather'')],
                          [GeocodeCall (ascii ''Hyderabad'') (ascii ''IN''), OneCallCall lat lon])
                   \<and> (\<forall>s'. summarise_try R w (ascii ''Hyderabad'') = Inr s' \<longrightarrow>
                        (\<exists>rest. s = ascii ''Current weather in Hyderabad: '' @ rest)))"
    proof (intro allI impI)
      fix data lat lon w
      assume h: "geocode_city E (ascii ''Hyderabad'') (ascii ''IN'') = Inr data
                \<and> check_geocoded R data (ascii ''Hyderabad'') (ascii ''IN'') = Inr ()
                \<and> coordinates R data = Inr (lat, lon)
                \<and> fetch_weather_onecall E lat lon = Inr w"
      obtain s where s: "summarise_onecall R w (ascii ''Hyderabad'') = Inr s"
        by (cases "summarise_try R w (ascii ''Hyderabad'')") (simp_all add: summarise_onecall_def)
      have f: "fetch_weather_for_city R E q (ascii ''Hyderabad'') (ascii ''IN'')
          = (Inr s, [GeocodeCall (ascii ''Hyderabad'') (ascii ''IN''), OneCallCall lat lon])"
        using hyd h s by (simp add: fetch_weather_for_city_def io_call_def io_pure_def)
      have n: "weather_node R E state
          = (Inr [(Context, s), (Route, ascii ''weather'')],
             [GeocodeCall (ascii ''Hyderabad'') (ascii ''IN''), OneCallCall lat lon])"
        using assms f by (simp add: weather_node_def)
      have p: "\<forall>s'. summarise_try R w (ascii ''Hyderabad'') = Inr s' \<longrightarrow>
          (\<exists>rest. s = ascii ''Current weather in Hyderabad: '' @ rest)"
      proof (intro allI impI)
        fix s'
        assume t: "summarise_try R w (ascii ''Hyderabad'') = Inr s'"
        with s have "s = s'" by (simp add: summarise_onecall_def)
        moreover from summarise_try_prefix [OF t] obtain rest where
          "s' = ascii ''Current weather in '' @ ascii ''Hyderabad'' @ ascii '': '' @ rest"
          by blast
        moreover have "ascii ''Current weather in '' @ ascii ''Hyderabad'' @ ascii '': '' @ rest
            = ascii ''Current weather in Hyderabad: '' @ rest"
          by (simp add: ascii_def)
        ultimately show "\<exists>rest. s = ascii ''Current weather in Hyderabad: '' @ rest"
          by blast
      qed
      from s n p show "\<exists>s. summarise_onecall R w (ascii ''Hyderabad'') = Inr s
                   \<and> weather_node R E state
                       = (Inr [(Context, s), (Route, ascii ''weather'')],
                          [GeocodeCall (ascii ''Hyderabad'') (ascii ''IN''), OneCallCall lat lon])
                   \<and> (\<forall>s'. summarise_try R w (ascii ''Hyderabad'') = Inr s' \<longrightarrow>
                        (\<exists>rest. s = ascii ''Current weather in Hyderabad: '' @ rest))"
        by blast
    qed
    from a b show "(\<exists>rest. snd (weather_node R E state)
                      = GeocodeCall (ascii ''Hyderabad'') (ascii ''IN'') # rest)
          \<and> (\<forall>data lat lon w.
                geocode_city E (ascii ''Hyderabad'') (ascii ''IN'') = Inr data
                \<and> check_geocoded R data (ascii ''Hyderabad'') (ascii ''IN'') = Inr ()
                \<and> coordinates R data = Inr (lat, lon)
                \<and> fetch_weather_onecall E lat lon = Inr w \<longrightarrow>
                (\<exists>s. summarise_onecall R w (ascii ''Hyderabad'') = Inr s
                   \<and> weather_node R E state
                       = (Inr [(Context, s), (Route, ascii ''weather'')],
                          [GeocodeCall (ascii ''Hyderabad'') (ascii ''IN''), OneCallCall lat lon])
                   \<and> (\<forall>s'. summarise_try R w (ascii ''Hyderabad'') = Inr s' \<longrightarrow>
                        (\<exists>rest. s = ascii ''Current weather in Hyderabad: '' @ rest))))"
      by blast
  qed
  from first second show ?thesis by blast
qed

text \<open>The question \<open>hello there\<close> matches neither pattern: Hyderabad is geocoded with the
  hint IN and the summary names Hyderabad.\<close>

theorem weather_node_default_city_witness:
  "re_search (pattern1 unicode_excerpt) (py_lower unicode_excerpt (ascii ''hello there'')) = None
   \<and> re_search (pattern2 unicode_excerpt) (py_lower unicode_excerpt (ascii ''hello there'')) = None
   \<and> weather_node sample_runtime sample_env (Map.empty (Question \<mapsto> ascii ''hello there''))
     = (Inr [(Context, ascii ''Current weather in Hyderabad: 25.0'' @ [176]
                @ ascii ''C (feels like 26.0'' @ [176]
                @ ascii ''C), humidity 70%, Clear sky, wind 4 m/s.''),
             (Route, ascii ''weather'')],
        [GeocodeCall (ascii ''Hyderabad'') (ascii ''IN''), OneCallCall (PNum 17) (PNum 78)])"
proof -
  let ?st = "Map.empty (Question \<mapsto> ascii ''hello there'')"
  have q: "?st Question = Some (ascii ''hello there'')" by simp
  have n1: "re_search (pattern1 (unicode sample_runtime))
      (py_lower (unicode sample_runtime) (ascii ''hello there'')) = None"
    by (simp add: sample_runtime_def extract_eval)
  have n2: "re_search (pattern2 (unicode sample_runtime))
      (py_lower (unicode sample_runtime) (ascii ''hello there'')) = None"
    by (simp add: sample_runtime_def extract_eval)
  have g: "geocode_city sample_env (ascii ''Hyderabad'') (ascii ''IN'')
      = Inr (PTuple [PNum 17, PNum 78])"
    by (simp add: sample_env_def)
  have c: "check_geocoded sample_runtime (PTuple [PNum 17, PNum 78]) (ascii ''Hyderabad'')
      (ascii ''IN'') = Inr ()"
    by (simp add: check_geocoded_def)
  have co: "coordinates sample_runtime (PTuple [PNum 17, PNum 78]) = Inr (PNum 17, PNum 78)"
    by (simp add: coordinates_def)
  have w: "fetch_weather_onecall sample_env (PNum 17) (PNum 78) = Inr mock_weather_json"
    by (simp add: sample_env_def)
  have s: "summarise_onecall sample_runtime mock_weather_json (ascii ''Hyderabad'')
     = Inr (ascii ''Current weather in Hyderabad: 25.0'' @ [176] @ ascii ''C (feels like 26.0''
            @ [176] @ ascii ''C), humidity 70%, Clear sky, wind 4 m/s.'')"
    by (simp add: summarise_eval)
  note t = weather_node_default_city
    [where state = ?st and q = "ascii ''hello there''" and R = sample_runtime and E = sample_env,
     OF q]
  note u = t [THEN conjunct2, THEN mp, OF conjI [OF n1 n2], THEN conjunct2, THEN spec, THEN spec,
      THEN spec, THEN spec, THEN mp, OF conjI [OF g conjI [OF c conjI [OF co w]]]]
  from u s have r: "weather_node sample_runtime sample_env ?st
     = (Inr [(Context, ascii ''Current weather in Hyderabad: 25.0'' @ [176]
                @ ascii ''C (feels like 26.0'' @ [176]
                @ ascii ''C), humidity 70%, Clear sky, wind 4 m/s.''),
             (Route, ascii ''weather'')],
        [GeocodeCall (ascii ''Hyderabad'') (ascii ''IN''), OneCallCall (PNum 17) (PNum 78)])"
    by auto
  from n1 n2 r show ?thesis by (simp add: sample_runtime_def)
qed

text \<open>
  C3. Once the question is in the state, the weather node never raises. When the weather
  path raises \<open>ex\<close> (in the geocoding call, for one, or anywhere else in
  \<open>fetch_weather_for_city\<close>), the node writes as Context the apology followed by \<open>str(ex)\<close>.
  In a run that the decision step routes to weather, such a failure does not end the run:
  the answer step is reached and calls the language model with the apology as context, and
  when that call returns, the run returns a state with the apology as Context and the
  stripped reply as Answer.
\<close>

theorem weather_node_catches:
  assumes "state Question = Some q"
  shows "(\<exists>u. fst (weather_node R E state) = Inr u)
       \<and> (\<forall>ex. fst (fetch_weather_for_city R E q (ascii ''Hyderabad'') (ascii ''IN'')) = Inl ex \<longrightarrow>
            fst (weather_node R E state)
              = Inr [(Context, fetch_apology @ exn_str ex), (Route, ascii ''weather'')])
       \<and> (\<forall>city ex. extract_city_name (unicode R) q (ascii ''Hyderabad'') = Inr city
              \<and> geocode_city E city (ascii ''IN'') = Inl ex \<longrightarrow>
            fst (weather_node R E state)
              = Inr [(Context, fetch_apology @ exn_str ex), (Route, ascii ''weather'')])
       \<and> (\<forall>reply ex.
            llm_invoke E [SystemMessage classifier_prompt, HumanMessage q] = Inr reply
            \<and> route_of_reply R reply = ascii ''weather''
            \<and> fst (fetch_weather_for_city R E q (ascii ''Hyderabad'') (ascii ''IN'')) = Inl ex \<longrightarrow>
            LLMCall [SystemMessage (context_prompt (fetch_apology @ exn_str ex)), HumanMessage q]
              \<in> set (snd (pipeline_invoke R E [(Question, q)]))
            \<and> (\<forall>reply2.
                 llm_invoke E
                   [SystemMessage (context_prompt (fetch_apology @ exn_str ex)), HumanMessage q]
                   = Inr reply2 \<longrightarrow>
                 (\<exists>final. fst (pipeline_invoke R E [(Question, q)]) = Inr final
                    \<and> final Context = Some (fetch_apology @ exn_str ex)
                    \<and> final Answer = Some (py_strip (unicode R) (or_empty reply2)))))"
proof -
  let ?fetch = "fetch_weather_for_city R E q (ascii ''Hyderabad'') (ascii ''IN'')"
  have a: "\<exists>u. fst (weather_node R E state) = Inr u"
    using weather_node_shape [where state = state and q = q and R = R and E = E] assms by auto
  have b: "\<forall>ex. fst ?fetch = Inl ex \<longrightarrow>
      fst (weather_node R E state)
        = Inr [(Context, fetch_apology @ exn_str ex), (Route, ascii ''weather'')]"
    using assms by (cases ?fetch) (simp add: weather_node_def)
  have c: "\<forall>city ex. extract_city_name (unicode R) q (ascii ''Hyderabad'') = Inr city
              \<and> geocode_city E city (ascii ''IN'') = Inl ex \<longrightarrow>
            fst (weather_node R E state)
              = Inr [(Context, fetch_apology @ exn_str ex), (Route, ascii ''weather'')]"
  proof (intro allI impI)
    fix city ex
    assume h: "extract_city_name (unicode R) q (ascii ''Hyderabad'') = Inr city
              \<and> geocode_city E city (ascii ''IN'') = Inl ex"
    then have "fst ?fetch = Inl ex"
      by (simp add: fetch_weather_for_city_def io_call_def)
    with b show "fst (weather_node R E state)
              = Inr [(Context, fetch_apology @ exn_str ex), (Route, ascii ''weather'')]"
      by blast
  qed
  have d: "\<forall>reply ex.
            llm_invoke E [SystemMessage classifier_prompt, HumanMessage q] = Inr reply
            \<and> route_of_reply R reply = ascii ''weather''
            \<and> fst ?fetch = Inl ex \<longrightarrow>
            LLMCall [SystemMessage (context_prompt (fetch_apology @ exn_str ex)), HumanMessage q]
              \<in> set (snd (pipeline_invoke R E [(Question, q)]))
            \<and> (\<forall>reply2.
                 llm_invoke E
                   [SystemMessage (context_prompt (fetch_apology @ exn_str ex)), HumanMessage q]
                   = Inr reply2 \<longrightarrow>
                 (\<exists>final. fst (pipeline_invoke R E [(Question, q)]) = Inr final
                    \<and> final Context = Some (fetch_apology @ exn_str ex)
                    \<and> final Answer = Some (py_strip (unicode R) (or_empty reply2))))"
  proof (intro allI impI)
    fix reply ex
    assume h: "llm_invoke E [SystemMessage classifier_prompt, HumanMessage q] = Inr reply
            \<and> route_of_reply R reply = ascii ''weather''
            \<and> fst ?fetch = Inl ex"
    let ?apo = "fetch_apology @ exn_str ex"
    let ?st1 = "Map.empty (Question \<mapsto> q, Route \<mapsto> ascii ''weather'')"
    let ?st2 = "?st1 (Context \<mapsto> ?apo, Route \<mapsto> ascii ''weather'')"
    let ?m2 = "[SystemMessage (context_prompt ?apo), HumanMessage q]"
    obtain evs where f: "?fetch = (Inl ex, evs)" using h by (cases ?fetch) simp
    have wn: "weather_node R E ?st1 = (Inr [(Context, ?apo), (Route, ascii ''weather'')], evs)"
      using f by (simp add: weather_node_def)
    have an: "answer_node R E ?st2 =
        (case llm_invoke E ?m2 of
           Inl e \<Rightarrow> (Inl e, [LLMCall ?m2])
         | Inr reply2 \<Rightarrow> (Inr [(Answer, py_strip (unicode R) (or_empty reply2))], [LLMCall ?m2]))"
      using strip_fetch_apology [of "unicode R" "exn_str ex"]
      by (simp add: answer_node_run [where q = q] or_empty_def Let_def)
    have run: "pipeline_invoke R E [(Question, q)] =
        (case llm_invoke E ?m2 of
           Inl e \<Rightarrow>
             (Inl e,
              [StateWrite NStart Question q,
               LLMCall [SystemMessage classifier_prompt, HumanMessage q],
               StateWrite NDecision Route (ascii ''weather'')] @ evs
              @ [StateWrite NWeather Context ?apo, StateWrite NWeather Route (ascii ''weather''),
                 LLMCall ?m2])
         | Inr reply2 \<Rightarrow>
             (Inr (?st2 (Answer \<mapsto> py_strip (unicode R) (or_empty reply2))),
              [StateWrite NStart Question q,
               LLMCall [SystemMessage classifier_prompt, HumanMessage q],
               StateWrite NDecision Route (ascii ''weather'')] @ evs
              @ [StateWrite NWeather Context ?apo, StateWrite NWeather Route (ascii ''weather''),
                 LLMCall ?m2,
                 StateWrite NAnswer Answer (py_strip (unicode R) (or_empty reply2))]))"
      using h wn an by (simp add: pipeline_run Let_def split: sum.splits)
    have call: "LLMCall ?m2 \<in> set (snd (pipeline_invoke R E [(Question, q)]))"
      by (cases "llm_invoke E ?m2") (simp_all add: run)
    have fin: "\<forall>reply2. llm_invoke E ?m2 = Inr reply2 \<longrightarrow>
        (\<exists>final. fst (pipeline_invoke R E [(Question, q)]) = Inr final
           \<and> final Context = Some ?apo
           \<and> final Answer = Some (py_strip (unicode R) (or_empty reply2)))"
      by (simp add: run)
    from call fin show "LLMCall ?m2 \<in> set (snd (pipeline_invoke R E [(Question, q)]))
        \<and> (\<forall>reply2. llm_invoke E ?m2 = Inr reply2 \<longrightarrow>
            (\<exists>final. fst (pipeline_invoke R E [(Question, q)]) = Inr final
               \<and> final Context = Some ?apo
               \<and> final Answer = Some (py_strip (unicode R) (or_empty reply2))))"
      by blast
  qed
  from a b c d show ?thesis by blast
qed

text \<open>The geocoder refuses the connection: the weather node returns the apology, and the
  run of the pipeline ends with the apology as Context and the model's reply as Answer.\<close>

theorem weather_node_catches_witness:
  "fst (weather_node sample_runtime
         (sample_env \<lparr> geocode_city := (\<lambda>city hint.
            Inl (Exn OtherError (ascii ''connection refused''))) \<rparr>)
         (Map.empty (Question \<mapsto> ascii ''What is the weather in Paris?'')))
     = Inr [(Context, fetch_apology @ ascii ''connection refused''), (Route, ascii ''weather'')]
   \<and> (\<exists>final.
        fst (pipeline_invoke sample_runtime
              (sample_env \<lparr> geocode_city := (\<lambda>city hint.
                 Inl (Exn OtherError (ascii ''connection refused''))) \<rparr>)
              [(Question, ascii ''What is the weather in Paris?'')]) = Inr final
        \<and> final Context = Some (fetch_apology @ ascii ''connection refused'')
        \<and> final Answer = Some (ascii ''weather''))"
proof -
  let ?E = "sample_env \<lparr> geocode_city := (\<lambda>city hint.
            Inl (Exn OtherError (ascii ''connection refused''))) \<rparr>"
  let ?q = "ascii ''What is the weather in Paris?''"
  let ?st = "Map.empty (Question \<mapsto> ?q)"
  let ?ex = "Exn OtherError (ascii ''connection refused'')"
  let ?m2 = "[SystemMessage (context_prompt (fetch_apology @ exn_str ?ex)), HumanMessage ?q]"
  have q: "?st Question = Some ?q" by simp
  have x: "extract_city_name (unicode sample_runtime) ?q (ascii ''Hyderabad'') = Inr (ascii ''Paris'')"
    by (simp add: sample_runtime_def extract_eval)
  have f: "fst (fetch_weather_for_city sample_runtime ?E ?q (ascii ''Hyderabad'') (ascii ''IN''))
      = Inl ?ex"
    using x by (simp add: fetch_weather_for_city_def io_call_def)
  have l1: "llm_invoke ?E [SystemMessage classifier_prompt, HumanMessage ?q]
      = Inr (Some (ascii ''weather''))"
    by (simp add: sample_env_def fake_model_def extract_eval)
  have rr: "route_of_reply sample_runtime (Some (ascii ''weather'')) = ascii ''weather''"
    by (simp add: route_of_reply_def or_empty_def sample_runtime_def extract_eval)
  have l2: "llm_invoke ?E ?m2 = Inr (Some (ascii ''weather''))"
    by (simp add: sample_env_def fake_model_def extract_eval)
  have st: "py_strip (unicode sample_runtime) (or_empty (Some (ascii ''weather''))) = ascii ''weather''"
    by (simp add: or_empty_def sample_runtime_def extract_eval)
  note t = weather_node_catches
    [where state = ?st and q = ?q and R = sample_runtime and E = ?E, OF q]
  note node = t [THEN conjunct2, THEN conjunct1, THEN spec, THEN mp, OF f]
  note run = t [THEN conjunct2, THEN conjunct2, THEN conjunct2, THEN spec, THEN spec, THEN mp,
      OF conjI [OF l1 conjI [OF rr f]], THEN conjunct2, THEN spec, THEN mp, OF l2]
  from node have a: "fst (weather_node sample_runtime ?E ?st)
     = Inr [(Context, fetch_apology @ ascii ''connection refused''), (Route, ascii ''weather'')]"
    by simp
  from run st have b: "\<exists>final.
        fst (pipeline_invoke sample_runtime ?E [(Question, ?q)]) = Inr final
        \<and> final Context = Some (fetch_apology @ ascii ''connection refused'')
        \<and> final Answer = Some (ascii ''weather'')"
    by simp
  from a b show ?thesis by blast
qed

section \<open>The writes of a run\<close>

text \<open>
  C2 (as amended). In a run of the pipeline on a question that returns, the state is
  written five times, in this order: Question by the caller's input, Route by the decision
  node, Context and then Route by the branch node (the weather node for the route
  \<open>weather\<close>, the rag node for \<open>pdf\<close>), and Answer by the answer node. The branch node
  writes Route a second time, with the label of its own branch, which is the value the
  decision node wrote; Question, Context and Answer are written once. The state returned
  holds these four values.
\<close>

theorem pipeline_state_writes:
  assumes "fst (pipeline_invoke R E [(Question, q)]) = Inr final"
  shows "\<exists>r b c a.
           writes (snd (pipeline_invoke R E [(Question, q)]))
             = [(NStart, Question, q), (NDecision, Route, r), (b, Context, c), (b, Route, r),
                (NAnswer, Answer, a)]
         \<and> ((r = ascii ''weather'' \<and> b = NWeather) \<or> (r = ascii ''pdf'' \<and> b = NRag))
         \<and> final = Map.empty (Question \<mapsto> q, Route \<mapsto> r, Context \<mapsto> c, Answer \<mapsto> a)"
proof -
  let ?m1 = "[SystemMessage classifier_prompt, HumanMessage q]"
  from assms obtain reply where l1: "llm_invoke E ?m1 = Inr reply"
    by (cases "llm_invoke E ?m1") (simp_all add: pipeline_run)
  define r where "r = route_of_reply R reply"
  define b where "b = (if r = ascii ''weather'' then NWeather else NRag)"
  let ?st1 = "Map.empty (Question \<mapsto> q, Route \<mapsto> r)"
  have q1: "?st1 Question = Some q" by simp
  have rb: "(r = ascii ''weather'' \<and> b = NWeather) \<or> (r = ascii ''pdf'' \<and> b = NRag)"
    using route_of_reply_cases [of R reply] weather_neq_pdf by (auto simp: r_def b_def)
  have branch: "\<exists>c evs. node_fn b R E ?st1 = (Inr [(Context, c), (Route, r)], evs)
      \<and> writes evs = []"
  proof (cases "r = ascii ''weather''")
    case True
    with weather_node_shape [where state = ?st1 and q = q and R = R and E = E] q1
    show ?thesis by (simp add: b_def)
  next
    case False
    with rb have p: "r = ascii ''pdf''" "b = NRag" by auto
    note rn = rag_node_run [where state = ?st1 and q = q and R = R and E = E, OF q1]
    show ?thesis
    proof (cases "similarity_search E q 5")
      case (Inl e)
      with assms l1 False rn show ?thesis
        by (simp add: pipeline_run Let_def r_def [symmetric])
    next
      case (Inr docs)
      with rn p show ?thesis by simp
    qed
  qed
  then obtain c evs where nf: "node_fn b R E ?st1 = (Inr [(Context, c), (Route, r)], evs)"
    and we: "writes evs = []" by blast
  let ?st2 = "?st1 (Context \<mapsto> c, Route \<mapsto> r)"
  have q2: "?st2 Question = Some q" by simp
  define prompt where
    "prompt = (if py_strip (unicode R) c \<noteq> [] then context_prompt c else plain_prompt)"
  let ?m2 = "[SystemMessage prompt, HumanMessage q]"
  have an: "answer_node R E ?st2 =
      (case llm_invoke E ?m2 of
         Inl e \<Rightarrow> (Inl e, [LLMCall ?m2])
       | Inr reply2 \<Rightarrow> (Inr [(Answer, py_strip (unicode R) (or_empty reply2))], [LLMCall ?m2]))"
    by (subst answer_node_run [where q = q])
      (simp_all add: Let_def or_empty_def prompt_def split: sum.splits)
  from assms l1 nf an obtain reply2 where l2: "llm_invoke E ?m2 = Inr reply2"
    by (cases "llm_invoke E ?m2")
      (simp_all add: pipeline_run Let_def r_def [symmetric] b_def [symmetric])
  define a where "a = py_strip (unicode R) (or_empty reply2)"
  have run: "pipeline_invoke R E [(Question, q)] =
      (Inr (?st2 (Answer \<mapsto> a)),
       [StateWrite NStart Question q, LLMCall ?m1, StateWrite NDecision Route r] @ evs
       @ [StateWrite b Context c, StateWrite b Route r, LLMCall ?m2, StateWrite NAnswer Answer a])"
    using l1 nf an l2
    by (simp add: pipeline_run Let_def r_def [symmetric] b_def [symmetric] a_def)
  have w: "writes (snd (pipeline_invoke R E [(Question, q)]))
      = [(NStart, Question, q), (NDecision, Route, r), (b, Context, c), (b, Route, r),
         (NAnswer, Answer, a)]"
    by (simp add: run we)
  have "final = ?st2 (Answer \<mapsto> a)" using assms run by simp
  also have "\<dots> = Map.empty (Question \<mapsto> q, Route \<mapsto> r, Context \<mapsto> c, Answer \<mapsto> a)"
    by (rule ext) simp
  finally have fin: "final = Map.empty (Question \<mapsto> q, Route \<mapsto> r, Context \<mapsto> c, Answer \<mapsto> a)" .
  from w rb fin show ?thesis by blast
qed

lemmas run_eval =
  pipeline_run Let_def sample_env_def sample_runtime_def fake_model_def route_of_reply_def
  or_empty_def weather_node_def rag_node_def answer_node_def fetch_weather_for_city_def
  retrieve_context_def check_geocoded_def coordinates_def io_call_def io_pure_def
  state_item_def

text \<open>The weather question of the tests, with the collaborators of the tests: five writes,
  Route among them twice, and the state that is returned.\<close>

theorem pipeline_state_writes_witness:
  "fst (pipeline_invoke sample_runtime sample_env [(Question, ascii ''What is the weather in Paris?'')])
     = Inr (Map.empty
         (Question \<mapsto> ascii ''What is the weather in Paris?'',
          Route \<mapsto> ascii ''weather'',
          Context \<mapsto> ascii ''Current weather in Paris: 25.0'' @ [176] @ ascii ''C (feels like 26.0''
             @ [176] @ ascii ''C), humidity 70%, Clear sky, wind 4 m/s.'',
          Answer \<mapsto> ascii ''weather''))
   \<and> writes (snd (pipeline_invoke sample_runtime sample_env
        [(Question, ascii ''What is the weather in Paris?'')]))
     = [(NStart, Question, ascii ''What is the weather in Paris?''),
        (NDecision, Route, ascii ''weather''),
        (NWeather, Context, ascii ''Current weather in Paris: 25.0'' @ [176]
           @ ascii ''C (feels like 26.0'' @ [176]
           @ ascii ''C), humidity 70%, Clear sky, wind 4 m/s.''),
        (NWeather, Route, ascii ''weather''),
        (NAnswer, Answer, ascii ''weather'')]"
proof -
  let ?q = "ascii ''What is the weather in Paris?''"
  let ?c = "ascii ''Current weather in Paris: 25.0'' @ [176] @ ascii ''C (feels like 26.0''
             @ [176] @ ascii ''C), humidity 70%, Clear sky, wind 4 m/s.''"
  let ?final = "Map.empty (Question \<mapsto> ?q, Route \<mapsto> ascii ''weather'', Context \<mapsto> ?c,
      Answer \<mapsto> ascii ''weather'')"
  have x: "extract_city_name unicode_excerpt ?q (ascii ''Hyderabad'') = Inr (ascii ''Paris'')"
    by (simp add: extract_eval)
  have s: "summarise_onecall sample_runtime mock_weather_json (ascii ''Paris'') = Inr ?c"
    by (simp add: summarise_eval)
  have l: "py_in (ascii ''weather'') (py_lower unicode_excerpt ?q)"
    by (simp add: extract_eval)
  have w: "py_lower unicode_excerpt (py_strip unicode_excerpt (ascii ''weather'')) = ascii ''weather''"
    by (simp add: extract_eval)
  have w': "py_strip unicode_excerpt (ascii ''weather'') = ascii ''weather''"
    by (simp add: extract_eval)
  have i: "py_in (ascii ''weather'') (ascii ''weather'')"
    by (simp add: ascii_def)
  have ne: "py_strip unicode_excerpt ?c \<noteq> []"
    by (simp add: extract_eval)
  have ev: "writes (snd (pipeline_invoke sample_runtime sample_env [(Question, ?q)]))
     = [(NStart, Question, ?q), (NDecision, Route, ascii ''weather''), (NWeather, Context, ?c),
        (NWeather, Route, ascii ''weather''), (NAnswer, Answer, ascii ''weather'')]"
    using x s [unfolded sample_runtime_def] l w w' i ne
    by (simp add: run_eval)
  have "\<exists>final. fst (pipeline_invoke sample_runtime sample_env [(Question, ?q)]) = Inr final"
    using x s [unfolded sample_runtime_def] l w w' i ne
    by (simp add: run_eval)
  then obtain final where
    fin: "fst (pipeline_invoke sample_runtime sample_env [(Question, ?q)]) = Inr final"
    by blast
  from pipeline_state_writes [OF fin] ev have "final = ?final"
    by auto
  with fin ev show ?thesis by simp
qed

text \<open>
  C2 as stated fails in the run on the question of the tests that is routed to the
  document: Route is written by the decision node and then again by the rag node, which
  runs after it.
\<close>

theorem route_written_by_branch_node_too:
  "filter (\<lambda>(nd, k, v). k = Route)
     (writes (snd (pipeline_invoke sample_runtime sample_env
        [(Question, ascii ''What is the capital of France?'')])))
     = [(NDecision, Route, ascii ''pdf''), (NRag, Route, ascii ''pdf'')]"
proof -
  let ?q = "ascii ''What is the capital of France?''"
  let ?p = "ascii ''Paris is the capital of France.''"
  have l: "\<not> py_in (ascii ''weather'') (py_lower unicode_excerpt ?q)"
    by (simp add: extract_eval)
  have w: "\<not> py_in (ascii ''weather'') (py_lower unicode_excerpt (py_strip unicode_excerpt ?p))"
    by (simp add: extract_eval)
  have np: "ascii ''pdf'' \<noteq> ascii ''weather''"
    by (simp add: ascii_def)
  have ev: "writes (snd (pipeline_invoke sample_runtime sample_env [(Question, ?q)]))
     = [(NStart, Question, ?q), (NDecision, Route, ascii ''pdf''), (NRag, Context, ?p),
        (NRag, Route, ascii ''pdf''),
        (NAnswer, Answer, py_strip unicode_excerpt ?p)]"
    using l w np by (simp add: run_eval)
  show ?thesis by (simp add: ev)
qed

end
